theory Spec2Isabelle
  imports Complex_Main "HOL-Library.Sublist"
begin

section \<open>Strings and JavaScript values\<close>

text \<open>
  A JavaScript string is modelled as a \<^typ>\<open>string\<close> of code units below 256.
  \<open>is_space\<close> is the character class \<open>\s\<close> of a regular expression, which is also
  what \<open>String.prototype.trim\<close> strips: tab, line feed, vertical tab, form feed,
  carriage return, space and the no-break space.
\<close>

definition is_space :: "char \<Rightarrow> bool" where
  "is_space c = (c \<in> set [CHR 0x09, CHR 0x0A, CHR 0x0B, CHR 0x0C, CHR 0x0D, CHR 0x20, CHR 0xA0])"

definition trim :: "string \<Rightarrow> string" where
  "trim s = rev (dropWhile is_space (rev (dropWhile is_space s)))"

text \<open>\<open>text.split(/\s+/)\<close>: every maximal run of white space is one separator.\<close>

fun split_ws :: "string \<Rightarrow> string list" where
  "split_ws [] = [[]]"
| "split_ws (c # cs) =
     (if is_space c then
        (if cs \<noteq> [] \<and> is_space (hd cs) then split_ws cs else [] # split_ws cs)
      else (case split_ws cs of [] \<Rightarrow> [[c]] | t # ts \<Rightarrow> (c # t) # ts))"

text \<open>\<open>.filter(w => w.length > 0).length\<close> of the split text.\<close>

definition count_words :: "string \<Rightarrow> nat" where
  "count_words text = length (filter (\<lambda>w. length w > 0) (split_ws text))"

text \<open>\<open>s.includes(t)\<close>.\<close>

fun str_includes :: "string \<Rightarrow> string \<Rightarrow> bool" where
  "str_includes [] t = (t = [])"
| "str_includes (c # cs) t = (prefix t (c # cs) \<or> str_includes cs t)"

text \<open>An exception object: its \<open>name\<close> and its \<open>message\<close>.\<close>

datatype js_error = JsError (err_name: string) (err_message: string)

text \<open>
  The values that \<open>JSON.parse\<close> returns. Numbers are the integers (time stamps and
  word counts). A property that is absent reads as \<open>undefined\<close>, modelled by \<open>None\<close>.
\<close>

datatype json =
    JNull
  | JBool bool
  | JNum int
  | JStr string
  | JArr "json list"
  | JObj "(string \<times> json) list"

text \<open>
  \<open>x.k\<close> for one of the property names this program reads (\<open>content\<close>, \<open>ops\<close>,
  \<open>timestamp\<close>, \<open>insert\<close>): reading a property of \<open>null\<close> throws a TypeError, an
  object yields the member or \<open>undefined\<close>, any other value has no such property.
\<close>

fun get_prop :: "json \<Rightarrow> string \<Rightarrow> js_error + json option" where
  "get_prop JNull k = Inl (JsError ''TypeError'' (''Cannot read properties of null (reading '' @ k @ '')''))"
| "get_prop (JObj kvs) k = Inr (map_of kvs k)"
| "get_prop (JBool b) k = Inr None"
| "get_prop (JNum n) k = Inr None"
| "get_prop (JStr s) k = Inr None"
| "get_prop (JArr xs) k = Inr None"

text \<open>JavaScript truthiness, as tested by \<open>!x\<close>.\<close>

fun truthy :: "json option \<Rightarrow> bool" where
  "truthy None = False"
| "truthy (Some JNull) = False"
| "truthy (Some (JBool b)) = b"
| "truthy (Some (JNum n)) = (n \<noteq> 0)"
| "truthy (Some (JStr s)) = (s \<noteq> [])"
| "truthy (Some (JArr xs)) = True"
| "truthy (Some (JObj kvs)) = True"

section \<open>The key-value store\<close>

text \<open>
  \<open>localStorage\<close> holds strings. The program reads a stored string back only through
  \<open>JSON.parse\<close> and a truthiness test, so a stored string is represented by what
  \<open>JSON.parse\<close> makes of it: \<open>Stringified j\<close> is the JSON text of the value \<open>j\<close> (what
  \<open>JSON.stringify\<close> produced, or an equivalent text), \<open>Plain t\<close> is a text \<open>t\<close> that is
  not JSON (the theme names, the probe of \<open>isLocalStorageAvailable\<close>, a damaged record);
  \<open>JSON.parse\<close> rejects it with a SyntaxError. The browser's serialisation itself is
  outside the repository and is taken to be lossless.

  \<open>write_fault\<close> is what \<open>setItem\<close> raises in this browser session: nothing when
  writes are accepted, a \<open>QuotaExceededError\<close> when the quota is exhausted, another
  error when storage is denied.
\<close>

datatype stored = Stringified json | Plain string

record storage =
  items :: "string \<rightharpoonup> stored"
  write_fault :: "js_error option"

definition setItem :: "storage \<Rightarrow> string \<Rightarrow> stored \<Rightarrow> js_error + storage" where
  "setItem st k v =
     (case write_fault st of
        Some e \<Rightarrow> Inl e
      | None \<Rightarrow> Inr (st\<lparr>items := (items st)(k \<mapsto> v)\<rparr>))"

definition getItem :: "storage \<Rightarrow> string \<Rightarrow> stored option" where
  "getItem st k = items st k"

definition removeItem :: "storage \<Rightarrow> string \<Rightarrow> storage" where
  "removeItem st k = st\<lparr>items := (items st)(k := None)\<rparr>"

definition JSON_stringify :: "json \<Rightarrow> stored" where
  "JSON_stringify j = Stringified j"

fun JSON_parse :: "stored \<Rightarrow> js_error + json" where
  "JSON_parse (Stringified j) = Inr j"
| "JSON_parse (Plain t) = Inl (JsError ''SyntaxError'' ''Unexpected token in JSON'')"

text \<open>\<open>!savedDataString\<close>: \<open>null\<close> and the empty string are falsy.\<close>

fun absent :: "stored option \<Rightarrow> bool" where
  "absent None = True"
| "absent (Some (Plain t)) = (t = [])"
| "absent (Some (Stringified j)) = False"

section \<open>The rich-text engine\<close>

text \<open>
  Quill is an external library; it is modelled by the interface the program uses. The
  document is the list of operations of its Delta, each a JSON object; the plain text is
  the concatenation of the string inserts. The history keeps snapshots: a change made by
  the user pushes the previous document, a programmatic change does not
  (\<open>userOnly: true\<close>). \<open>handlers\<close> are the \<open>text-change\<close> listeners in the order of
  their registration.
\<close>

datatype source = User | Api | Silent

datatype handler = EditorWordCount | StorageAutosave

record engine =
  contents :: "json list"
  undo_stack :: "json list list"
  redo_stack :: "json list list"
  handlers :: "handler list"

fun op_text :: "json \<Rightarrow> string" where
  "op_text (JObj kvs) = (case map_of kvs ''insert'' of Some (JStr t) \<Rightarrow> t | _ \<Rightarrow> [])"
| "op_text _ = []"

definition getText :: "engine \<Rightarrow> string" where
  "getText q = concat (map op_text (contents q))"

definition getContents :: "engine \<Rightarrow> json" where
  "getContents q = JObj [(''ops'', JArr (contents q))]"

text \<open>\<open>new Delta(x)\<close>: an array is the operations, an object with an array \<open>ops\<close> too.\<close>

fun delta_ops :: "json \<Rightarrow> json list" where
  "delta_ops (JArr xs) = xs"
| "delta_ops (JObj kvs) = (case map_of kvs ''ops'' of Some (JArr xs) \<Rightarrow> xs | _ \<Rightarrow> [])"
| "delta_ops _ = []"

definition empty_document :: "json list" where
  "empty_document = [JObj [(''insert'', JStr [CHR 0x0A])]]"

section \<open>The page\<close>

text \<open>
  The mutable state of the page: the clock and the pending timers of the browser, the
  globals of the three scripts, the store, and the parts of the document the scripts
  write (the two footer elements, the dialogs shown, the error console, the off-screen
  elements and the button of the export, the files downloaded). The elements that the
  scripts look up by identifier are present. Messages are their text without the
  leading pictograph.

  A timer is its identifier, the instant it is due and its callback. \<open>fired\<close> is the
  history of the callbacks the browser has run, each with the instant it ran at.
  Timers are ideal: a callback runs at the instant it is due.
\<close>

datatype callback = CbAutosave | CbStatusReady | CbTriggerAutosave | CbWordCount

type_synonym timer = "nat \<times> nat \<times> callback"

definition timer_id :: "timer \<Rightarrow> nat" where "timer_id t = fst t"
definition due :: "timer \<Rightarrow> nat" where "due t = fst (snd t)"
definition callback_of :: "timer \<Rightarrow> callback" where "callback_of t = snd (snd t)"

datatype status = Ready | Pending | Saved | Loaded | Error | Disabled

datatype node = Overlay | Wrapper

text \<open>
  A placed image of a PDF; its height is \<open>None\<close> where the division of the source has
  no finite result (a canvas of width 0). A downloaded file is the time stamp of its
  name and its pages, each the list of the images placed on it.
\<close>

record placed_image =
  at_x :: rat
  at_y :: rat
  img_width :: rat
  img_height :: "rat option"

record pdf_file =
  stamp :: nat
  pages :: "placed_image list list"

record page =
  now :: nat
  next_timer :: nat
  timers :: "timer list"
  fired :: "(nat \<times> callback) list"
  quill :: "engine option"
  wordCountTimer :: "nat option"
  autosaveTimer :: "nat option"
  isAutosaveEnabled :: bool
  localStorage :: storage
  autoSaveStatus :: status
  wordCount :: "nat \<times> nat"
  dark_mode :: bool
  alerts :: "string list"
  console_errors :: "string list"
  body :: "node list"
  exportBtn_disabled :: bool
  exportBtn_text :: string
  downloads :: "pdf_file list"

text \<open>
  A handler either returns or lets an exception escape to the page; the state reached
  at that point stays.
\<close>

datatype outcome = Returns page | Throws js_error page

fun after :: "outcome \<Rightarrow> page" where
  "after (Returns s) = s"
| "after (Throws e s) = s"

definition setTimeout :: "callback \<Rightarrow> nat \<Rightarrow> page \<Rightarrow> nat \<times> page" where
  "setTimeout cb delay s =
     (next_timer s,
      s\<lparr>timers := timers s @ [(next_timer s, now s + delay, cb)],
        next_timer := Suc (next_timer s)\<rparr>)"

definition clearTimeout :: "nat \<Rightarrow> page \<Rightarrow> page" where
  "clearTimeout i s = s\<lparr>timers := filter (\<lambda>t. timer_id t \<noteq> i) (timers s)\<rparr>"

definition alert :: "string \<Rightarrow> page \<Rightarrow> page" where
  "alert m s = s\<lparr>alerts := alerts s @ [m]\<rparr>"

definition console_error :: "string \<Rightarrow> page \<Rightarrow> page" where
  "console_error m s = s\<lparr>console_errors := console_errors s @ [m]\<rparr>"

section \<open>Storage module\<close>

definition STORAGE_KEY :: string where
  "STORAGE_KEY = ''smartDocEditor_content''"

definition AUTOSAVE_DELAY :: nat where
  "AUTOSAVE_DELAY = 2000"

text \<open>
  \<open>updateAutosaveStatus(status)\<close>: the footer shows the text for the status; after
  \<open>saved\<close> and \<open>loaded\<close> a timer puts it back to \<open>ready\<close> 3000 ms later.
\<close>

definition updateAutosaveStatus :: "status \<Rightarrow> page \<Rightarrow> page" where
  "updateAutosaveStatus st s =
     (let s1 = s\<lparr>autoSaveStatus := st\<rparr>
      in if st = Saved \<or> st = Loaded then snd (setTimeout CbStatusReady 3000 s1) else s1)"

definition triggerAutosave :: "page \<Rightarrow> page" where
  "triggerAutosave s =
     (if \<not> isAutosaveEnabled s then s
      else
        let s1 = (case autosaveTimer s of None \<Rightarrow> s | Some i \<Rightarrow> clearTimeout i s);
            (i, s2) = setTimeout CbAutosave AUTOSAVE_DELAY s1;
            s3 = s2\<lparr>autosaveTimer := Some i\<rparr>
        in updateAutosaveStatus Pending s3)"

text \<open>The Save Record built by \<open>performSave\<close> from the engine and the clock.\<close>

definition saveData :: "engine \<Rightarrow> nat \<Rightarrow> json" where
  "saveData q t =
     JObj [(''content'', getContents q),
           (''timestamp'', JNum (int t)),
           (''version'', JStr ''1.0''),
           (''wordCount'', JNum (int (count_words (trim (getText q)))))]"

definition handleSaveError :: "js_error \<Rightarrow> bool \<Rightarrow> page \<Rightarrow> page" where
  "handleSaveError e isAutomatic s =
     (let s1 = console_error ''Save failed'' s
      in if err_name e = ''QuotaExceededError'' then
           (let message = ''Storage quota exceeded! Please clear some browser data or export your document.'';
                s2 = (if \<not> isAutomatic then alert message s1 else s1)
            in updateAutosaveStatus Error s2)
         else
           (let message = ''Failed to save document. Please try again.'';
                s2 = (if \<not> isAutomatic then alert message s1 else s1)
            in updateAutosaveStatus Error s2))"

text \<open>The body of the \<open>try\<close> of \<open>performSave\<close>; the page is unchanged where it throws.\<close>

definition performSave_try :: "bool \<Rightarrow> page \<Rightarrow> js_error + page" where
  "performSave_try isAutomatic s =
     (case quill s of
        None \<Rightarrow> Inl (JsError ''TypeError'' ''Cannot read properties of null (reading getContents)'')
      | Some q \<Rightarrow>
          let text = trim (getText q)
          in if length text = 0 \<and> isAutomatic then Inr (updateAutosaveStatus Disabled s)
             else
               (case setItem (localStorage s) STORAGE_KEY (JSON_stringify (saveData q (now s))) of
                  Inl e \<Rightarrow> Inl e
                | Inr st \<Rightarrow>
                    let s1 = s\<lparr>localStorage := st\<rparr>;
                        s2 = updateAutosaveStatus Saved s1
                    in Inr (if isAutomatic then s2
                            else alert ''Document saved successfully!'' s2)))"

definition performSave :: "bool \<Rightarrow> page \<Rightarrow> page" where
  "performSave isAutomatic s =
     (case performSave_try isAutomatic s of
        Inr s' \<Rightarrow> s'
      | Inl e \<Rightarrow> handleSaveError e isAutomatic s)"

definition manualSave :: "page \<Rightarrow> page" where
  "manualSave s = performSave False s"

section \<open>Editor module\<close>

text \<open>
  \<open>updateWordCount\<close> writes the numbers of words and of characters of the trimmed
  plain text into the footer (\<open>Words: w | Characters: c\<close>).
\<close>

definition updateWordCount :: "page \<Rightarrow> page" where
  "updateWordCount s =
     (case quill s of
        None \<Rightarrow> s
      | Some q \<Rightarrow>
          let text = getText q;
              words = filter (\<lambda>word. length word > 0) (split_ws (trim text));
              charCount = length (trim text)
          in s\<lparr>wordCount := (length words, charCount)\<rparr>)"

definition debouncedWordCountUpdate :: "page \<Rightarrow> page" where
  "debouncedWordCountUpdate s =
     (let s1 = (case wordCountTimer s of None \<Rightarrow> s | Some i \<Rightarrow> clearTimeout i s);
          (i, s2) = setTimeout CbWordCount 300 s1
      in s2\<lparr>wordCountTimer := Some i\<rparr>)"

text \<open>
  The two \<open>text-change\<close> listeners: the one \<open>initializeEditor\<close> registers and the one
  \<open>setupStorageListeners\<close> registers. The engine calls them in the order of
  registration with the source of the change.
\<close>

fun run_handler :: "source \<Rightarrow> page \<Rightarrow> handler \<Rightarrow> page" where
  "run_handler src s EditorWordCount = updateWordCount s"
| "run_handler src s StorageAutosave = (if src = User then triggerAutosave s else s)"

definition emit_text_change :: "source \<Rightarrow> page \<Rightarrow> page" where
  "emit_text_change src s =
     (case quill s of
        None \<Rightarrow> s
      | Some q \<Rightarrow> foldl (run_handler src) s (handlers q))"

text \<open>
  The engine's operations, on the page that holds the engine; the callers have checked
  that there is one. \<open>quill.setText('')\<close> leaves the empty document.
\<close>

definition quill_setContents :: "json \<Rightarrow> page \<Rightarrow> page" where
  "quill_setContents delta s =
     (case quill s of
        None \<Rightarrow> s
      | Some q \<Rightarrow> emit_text_change Api (s\<lparr>quill := Some (q\<lparr>contents := delta_ops delta\<rparr>)\<rparr>))"

definition quill_setText_empty :: "page \<Rightarrow> page" where
  "quill_setText_empty s =
     (case quill s of
        None \<Rightarrow> s
      | Some q \<Rightarrow> emit_text_change Api (s\<lparr>quill := Some (q\<lparr>contents := empty_document\<rparr>)\<rparr>))"

definition history_clear :: "page \<Rightarrow> page" where
  "history_clear s =
     (case quill s of
        None \<Rightarrow> s
      | Some q \<Rightarrow> s\<lparr>quill := Some (q\<lparr>undo_stack := [], redo_stack := []\<rparr>)\<rparr>)"

definition history_undo :: "page \<Rightarrow> page" where
  "history_undo s =
     (case quill s of
        None \<Rightarrow> s
      | Some q \<Rightarrow>
          (case undo_stack q of
             [] \<Rightarrow> s
           | c # cs \<Rightarrow>
               emit_text_change User
                 (s\<lparr>quill := Some (q\<lparr>contents := c, undo_stack := cs,
                                     redo_stack := contents q # redo_stack q\<rparr>)\<rparr>)))"

definition history_redo :: "page \<Rightarrow> page" where
  "history_redo s =
     (case quill s of
        None \<Rightarrow> s
      | Some q \<Rightarrow>
          (case redo_stack q of
             [] \<Rightarrow> s
           | c # cs \<Rightarrow>
               emit_text_change User
                 (s\<lparr>quill := Some (q\<lparr>contents := c, redo_stack := cs,
                                     undo_stack := contents q # undo_stack q\<rparr>)\<rparr>)))"

text \<open>The user edits the document into \<open>c\<close> (\<open>maxStack: 100\<close>).\<close>

definition user_edit :: "json list \<Rightarrow> page \<Rightarrow> page" where
  "user_edit c s =
     (case quill s of
        None \<Rightarrow> s
      | Some q \<Rightarrow>
          emit_text_change User
            (s\<lparr>quill := Some (q\<lparr>contents := c,
                                undo_stack := take 100 (contents q # undo_stack q),
                                redo_stack := []\<rparr>)\<rparr>))"

definition initializeEditor :: "page \<Rightarrow> page" where
  "initializeEditor s =
     s\<lparr>quill := Some \<lparr>contents = empty_document, undo_stack = [], redo_stack = [],
                       handlers = [EditorWordCount]\<rparr>\<rparr>"

definition undoChange :: "page \<Rightarrow> page" where
  "undoChange s =
     (case quill s of
        None \<Rightarrow> console_error ''Cannot undo: Quill editor not initialized'' s
      | Some q \<Rightarrow> history_undo s)"

definition redoChange :: "page \<Rightarrow> page" where
  "redoChange s =
     (case quill s of
        None \<Rightarrow> console_error ''Cannot redo: Quill editor not initialized'' s
      | Some q \<Rightarrow> history_redo s)"

text \<open>\<open>confirmed\<close> is the user's answer to the confirmation dialog.\<close>

definition createNewDocument :: "bool \<Rightarrow> page \<Rightarrow> page" where
  "createNewDocument confirmed s =
     (case quill s of
        None \<Rightarrow> console_error ''Cannot create new document: Quill editor not initialized'' s
      | Some q \<Rightarrow>
          if confirmed then
            (let s1 = quill_setText_empty s;
                 s2 = history_clear s1
             in updateWordCount s2)
          else s)"

text \<open>
  \<open>toggleDarkMode\<close> stores the theme; a refused write is not caught there.
\<close>

definition toggleDarkMode :: "page \<Rightarrow> outcome" where
  "toggleDarkMode s =
     (let s1 = s\<lparr>dark_mode := \<not> dark_mode s\<rparr>;
          theme = (if dark_mode s1 then ''dark'' else ''light'')
      in case setItem (localStorage s1) ''theme'' (Plain theme) of
           Inl e \<Rightarrow> Throws e s1
         | Inr st \<Rightarrow> Returns (s1\<lparr>localStorage := st\<rparr>))"

section \<open>Loading\<close>

text \<open>
  The body of the \<open>try\<close> of \<open>loadSavedDocument\<close>. Every \<open>throw\<close> comes before the
  first change of the page.
\<close>

definition invalid_format :: js_error where
  "invalid_format = JsError ''Error'' ''Invalid save data format''"

definition loadSavedDocument_try :: "page \<Rightarrow> js_error + page" where
  "loadSavedDocument_try s =
     (let savedDataString = getItem (localStorage s) STORAGE_KEY
      in if absent savedDataString then Inr (updateAutosaveStatus Ready s)
         else
           (case savedDataString of
              None \<Rightarrow> Inr (updateAutosaveStatus Ready s)
            | Some str \<Rightarrow>
                (case JSON_parse str of
                   Inl e \<Rightarrow> Inl e
                 | Inr savedData \<Rightarrow>
                     (case get_prop savedData ''content'' of
                        Inl e \<Rightarrow> Inl e
                      | Inr None \<Rightarrow> Inl invalid_format
                      | Inr (Some content) \<Rightarrow>
                          if \<not> truthy (Some content) then Inl invalid_format
                          else
                            (case get_prop content ''ops'' of
                               Inl e \<Rightarrow> Inl e
                             | Inr ops \<Rightarrow>
                                 if \<not> truthy ops then Inl invalid_format
                                 else
                                   (case quill s of
                                      None \<Rightarrow>
                                        Inl (JsError ''TypeError''
                                          ''Cannot read properties of null (reading setContents)'')
                                    | Some q \<Rightarrow>
                                        let s1 = quill_setContents content s;
                                            s2 = history_clear s1
                                        in Inr (updateAutosaveStatus Loaded s2)))))))"

text \<open>
  \<open>handleLoadError\<close>; \<open>confirmed\<close> is the answer to its dialog. With no engine the
  \<open>quill.setText\<close> of the recovery throws out of the handler.
\<close>

definition handleLoadError :: "js_error \<Rightarrow> bool \<Rightarrow> page \<Rightarrow> outcome" where
  "handleLoadError e confirmed s =
     (let s1 = console_error ''Load failed'' s
      in if err_name e = ''SyntaxError'' \<or> str_includes (err_message e) ''Invalid'' then
           (if confirmed then
              (let s2 = s1\<lparr>localStorage := removeItem (localStorage s1) STORAGE_KEY\<rparr>
               in case quill s2 of
                    None \<Rightarrow>
                      Throws (JsError ''TypeError''
                        ''Cannot read properties of null (reading setText)'') s2
                  | Some q \<Rightarrow>
                      let s3 = quill_setText_empty s2;
                          s4 = updateAutosaveStatus Ready s3
                      in Returns (alert ''Corrupted data cleared. You can start a new document.'' s4))
            else Returns s1)
         else
           Returns (updateAutosaveStatus Error
             (alert ''Failed to load document. The saved data may be corrupted.'' s1)))"

definition loadSavedDocument :: "bool \<Rightarrow> page \<Rightarrow> outcome" where
  "loadSavedDocument confirm_clear s =
     (case loadSavedDocument_try s of
        Inr s' \<Rightarrow> Returns s'
      | Inl e \<Rightarrow> handleLoadError e confirm_clear s)"

text \<open>
  \<open>manualLoad\<close>; \<open>confirmed\<close> answers its own dialog, \<open>confirm_clear\<close> the one of
  \<open>handleLoadError\<close>. The second read of the record is outside any \<open>try\<close>. The date
  in the message is left out.
\<close>

definition manualLoad :: "bool \<Rightarrow> bool \<Rightarrow> page \<Rightarrow> outcome" where
  "manualLoad confirmed confirm_clear s =
     (if confirmed then
        (case loadSavedDocument confirm_clear s of
           Throws e s1 \<Rightarrow> Throws e s1
         | Returns s1 \<Rightarrow>
             (let savedDataString = getItem (localStorage s1) STORAGE_KEY
              in if absent savedDataString then Returns s1
                 else
                   (case savedDataString of
                      None \<Rightarrow> Returns s1
                    | Some str \<Rightarrow>
                        (case JSON_parse str of
                           Inl e \<Rightarrow> Throws e s1
                         | Inr savedData \<Rightarrow>
                             (case get_prop savedData ''timestamp'' of
                                Inl e \<Rightarrow> Throws e s1
                              | Inr ts \<Rightarrow> Returns (alert ''Loaded document from'' s1))))))
      else Returns s)"

definition clearSavedDocument :: "bool \<Rightarrow> page \<Rightarrow> page" where
  "clearSavedDocument confirmed s =
     (if confirmed then
        (let s1 = s\<lparr>localStorage := removeItem (localStorage s) STORAGE_KEY\<rparr>;
             s2 = alert ''Saved document deleted.'' s1
         in updateAutosaveStatus Ready s2)
      else s)"

definition setupStorageListeners :: "page \<Rightarrow> page" where
  "setupStorageListeners s =
     (case quill s of
        None \<Rightarrow> console_error ''Quill editor not found. Make sure editor.js loads first.'' s
      | Some q \<Rightarrow> s\<lparr>quill := Some (q\<lparr>handlers := handlers q @ [StorageAutosave]\<rparr>)\<rparr>)"

text \<open>The check at the end of the storage script, run when the script loads.\<close>

definition isLocalStorageAvailable :: "page \<Rightarrow> bool \<times> page" where
  "isLocalStorageAvailable s =
     (let test = ''__localStorage_test__''
      in case setItem (localStorage s) test (Plain test) of
           Inl e \<Rightarrow> (False, s)
         | Inr st \<Rightarrow> (True, s\<lparr>localStorage := removeItem st test\<rparr>))"

definition storage_module_load :: "page \<Rightarrow> page" where
  "storage_module_load s =
     (let s0 = s\<lparr>autosaveTimer := None, isAutosaveEnabled := True\<rparr>;
          (available, s1) = isLocalStorageAvailable s0
      in if \<not> available then
           (let s2 = alert ''LocalStorage is not available. Documents cannot be saved in this browser.'' s1;
                s3 = s2\<lparr>isAutosaveEnabled := False\<rparr>
            in updateAutosaveStatus Error s3)
         else s1)"

section \<open>Import module\<close>

text \<open>
  \<open>insertHtmlIntoQuill\<close>; \<open>ops\<close> is the Delta that the engine's clipboard converts the
  markup into. It ends by calling \<open>triggerAutosave\<close> 500 ms later.
\<close>

definition insertHtmlIntoQuill :: "json list \<Rightarrow> page \<Rightarrow> js_error + page" where
  "insertHtmlIntoQuill ops s =
     (case quill s of
        None \<Rightarrow> Inl (JsError ''Error'' ''Quill editor not available'')
      | Some q \<Rightarrow>
          let s1 = quill_setText_empty s;
              s2 = quill_setContents (JArr ops) s1;
              s3 = history_clear s2
          in Inr (snd (setTimeout CbTriggerAutosave 500 s3)))"

text \<open>
  \<open>handleFileSelect\<close> for a file that passed the checks of name and size: \<open>conv\<close> is
  what reading and converting the file gives, \<open>confirmed\<close> the answer to the dialog
  shown when the editor has content.
\<close>

definition handleFileSelect :: "js_error + json list \<Rightarrow> bool \<Rightarrow> page \<Rightarrow> outcome" where
  "handleFileSelect conv confirmed s =
     (case quill s of
        None \<Rightarrow> Throws (JsError ''TypeError'' ''Cannot read properties of null (reading getText)'') s
      | Some q \<Rightarrow>
          if length (trim (getText q)) > 0 \<and> \<not> confirmed then Returns s
          else
            (case conv of
               Inl e \<Rightarrow> Returns (alert (''Failed to import document. Error: '' @ err_message e)
                                  (console_error ''Import failed'' s))
             | Inr ops \<Rightarrow>
                 (case insertHtmlIntoQuill ops s of
                    Inl e \<Rightarrow> Returns (alert (''Failed to import document. Error: '' @ err_message e)
                                       (console_error ''Import failed'' s))
                  | Inr s1 \<Rightarrow> Returns (alert ''Document imported successfully!'' s1))))"

section \<open>Export module\<close>

text \<open>
  What the two libraries do in one run of the export: the size of the canvas that
  \<open>html2canvas\<close> returns, the size of the page of \<open>jsPDF\<close>, and the step that throws,
  if one does, with its exception. The two pauses of the handler are not modelled: the
  handlers that can run meanwhile touch neither the off-screen elements nor the button.
\<close>

datatype export_step = Rasterize | ToDataURL | LoadJsPDF | NewJsPDF | AddImage | SavePDF

record export_env =
  canvas_width :: nat
  canvas_height :: nat
  pdfWidth :: rat
  pdfHeight :: rat
  fault :: "(export_step \<times> js_error) option"

definition throws_at :: "export_env \<Rightarrow> export_step \<Rightarrow> js_error option" where
  "throws_at env st =
     (case fault env of
        None \<Rightarrow> None
      | Some (st', e) \<Rightarrow> if st' = st then Some e else None)"

definition removeChild :: "node \<Rightarrow> page \<Rightarrow> page" where
  "removeChild n s = s\<lparr>body := remove1 n (body s)\<rparr>"

text \<open>
  The body of the \<open>try\<close> of the click handler, after the button has been disabled.
\<close>

definition export_try :: "export_env \<Rightarrow> page \<Rightarrow> outcome" where
  "export_try env s =
     (let s1 = s\<lparr>body := body s @ [Overlay]\<rparr>;
          s2 = s1\<lparr>body := body s1 @ [Wrapper]\<rparr>
      in case throws_at env Rasterize of Some e \<Rightarrow> Throws e s2 | None \<Rightarrow>
         (case throws_at env ToDataURL of Some e \<Rightarrow> Throws e s2 | None \<Rightarrow>
         (case throws_at env LoadJsPDF of Some e \<Rightarrow> Throws e s2 | None \<Rightarrow>
         (case throws_at env NewJsPDF of Some e \<Rightarrow> Throws e s2 | None \<Rightarrow>
            let imgWidth = pdfWidth env - 20;
                imgHeight = (if canvas_width env = 0 then None
                             else Some ((of_nat (canvas_height env) * imgWidth)
                                        / of_nat (canvas_width env)));
                image = \<lparr>at_x = 10, at_y = 10, img_width = imgWidth, img_height = imgHeight\<rparr>
            in case throws_at env AddImage of Some e \<Rightarrow> Throws e s2 | None \<Rightarrow>
               (case throws_at env SavePDF of Some e \<Rightarrow> Throws e s2 | None \<Rightarrow>
                  let pdf = \<lparr>stamp = now s2, pages = [[image]]\<rparr>;
                      s3 = s2\<lparr>downloads := downloads s2 @ [pdf]\<rparr>;
                      s4 = removeChild Wrapper s3;
                      s5 = removeChild Overlay s4;
                      s6 = s5\<lparr>exportBtn_disabled := False, exportBtn_text := ''PDF''\<rparr>
                  in Returns (alert ''PDF downloaded successfully!'' s6))))))"

definition exportPDF_click :: "export_env \<Rightarrow> page \<Rightarrow> page" where
  "exportPDF_click env s =
     (case quill s of
        None \<Rightarrow> alert ''Editor is not initialized.'' s
      | Some q \<Rightarrow>
          let textContent = trim (getText q)
          in if length textContent = 0 then
               alert ''Document is empty. Please add content first.'' s
             else
               (let s1 = s\<lparr>exportBtn_disabled := True, exportBtn_text := ''Exporting...''\<rparr>
                in case export_try env s1 of
                     Returns s2 \<Rightarrow> s2
                   | Throws error s2 \<Rightarrow>
                       let s3 = console_error ''Export failed'' s2;
                           s4 = alert (''Export failed: '' @ err_message error) s3;
                           s5 = (if Wrapper \<in> set (body s4) then removeChild Wrapper s4 else s4);
                           s6 = (if Overlay \<in> set (body s5) then removeChild Overlay s5 else s5)
                       in s6\<lparr>exportBtn_disabled := False, exportBtn_text := ''PDF''\<rparr>))"

section \<open>Timers and events\<close>

fun run_callback :: "callback \<Rightarrow> page \<Rightarrow> page" where
  "run_callback CbAutosave s = performSave True s"
| "run_callback CbStatusReady s = updateAutosaveStatus Ready s"
| "run_callback CbTriggerAutosave s = triggerAutosave s"
| "run_callback CbWordCount s = updateWordCount s"

text \<open>The browser runs a pending timer: it leaves the queue and its callback runs.\<close>

definition fire :: "timer \<Rightarrow> page \<Rightarrow> page" where
  "fire t s =
     run_callback (callback_of t)
       (s\<lparr>timers := remove1 t (timers s), fired := fired s @ [(now s, callback_of t)]\<rparr>)"

text \<open>
  The timers that are due run one after the other, the oldest first; \<open>n\<close> bounds their
  number.
\<close>

fun fire_due :: "nat \<Rightarrow> page \<Rightarrow> page" where
  "fire_due 0 s = s"
| "fire_due (Suc n) s =
     (case find (\<lambda>t. due t \<le> now s) (timers s) of
        None \<Rightarrow> s
      | Some t \<Rightarrow> fire_due n (fire t s))"

text \<open>One millisecond passes.\<close>

definition tick :: "page \<Rightarrow> page" where
  "tick s = (let s1 = s\<lparr>now := Suc (now s)\<rparr> in fire_due (length (timers s1)) s1)"

text \<open>
  What can happen on the page: time passes, the user edits with the engine, presses a
  button or a shortcut; the dialogs' answers and the libraries' results come with the
  event. The export button does nothing while it is disabled.
\<close>

datatype event =
    Tick
  | UserEdit "json list"
  | Undo
  | Redo
  | NewDocument bool
  | ManualSave
  | ManualLoad bool bool
  | ClearSaved bool
  | ExportPDF export_env
  | ImportDocx "js_error + json list" bool
  | ToggleDarkMode

fun step :: "page \<Rightarrow> event \<Rightarrow> page" where
  "step s Tick = tick s"
| "step s (UserEdit c) = user_edit c s"
| "step s Undo = undoChange s"
| "step s Redo = redoChange s"
| "step s (NewDocument confirmed) = createNewDocument confirmed s"
| "step s ManualSave = manualSave s"
| "step s (ManualLoad confirmed confirm_clear) = after (manualLoad confirmed confirm_clear s)"
| "step s (ClearSaved confirmed) = clearSavedDocument confirmed s"
| "step s (ExportPDF env) = (if exportBtn_disabled s then s else exportPDF_click env s)"
| "step s (ImportDocx conv confirmed) = after (handleFileSelect conv confirmed s)"
| "step s ToggleDarkMode = after (toggleDarkMode s)"

definition run :: "event list \<Rightarrow> page \<Rightarrow> page" where
  "run evs s = foldl step s evs"

section \<open>Starting the page\<close>

text \<open>
  The page before any script has run, over a given store; the page once the scripts
  have loaded, the editor is initialised and the storage listeners are attached; and
  the page once the saved document, if any, has been restored as well
  (\<open>confirm_clear\<close> answers the dialog of a damaged record).
\<close>

definition fresh_page :: "storage \<Rightarrow> page" where
  "fresh_page st =
     \<lparr>now = 0, next_timer = 1, timers = [], fired = [], quill = None,
      wordCountTimer = None, autosaveTimer = None, isAutosaveEnabled = True,
      localStorage = st, autoSaveStatus = Ready, wordCount = (0, 0), dark_mode = False,
      alerts = [], console_errors = [], body = [], exportBtn_disabled = False,
      exportBtn_text = ''PDF'', downloads = []\<rparr>"

definition loaded_page :: "storage \<Rightarrow> page" where
  "loaded_page st =
     (let s1 = storage_module_load (fresh_page st);
          s2 = updateWordCount (initializeEditor s1)
      in setupStorageListeners s2)"

definition start_page :: "storage \<Rightarrow> bool \<Rightarrow> page" where
  "start_page st confirm_clear =
     (case loadSavedDocument confirm_clear (loaded_page st) of
        Throws e s4 \<Rightarrow> s4
      | Returns s4 \<Rightarrow> updateAutosaveStatus Ready s4)"

section \<open>Observations\<close>

text \<open>
  The pending timers with a given callback; the instants at which the autosave timer has
  run \<open>performSave(true)\<close>; the number of milliseconds in a list of events.
\<close>

definition pending :: "callback \<Rightarrow> page \<Rightarrow> timer list" where
  "pending cb s = filter (\<lambda>t. callback_of t = cb) (timers s)"

definition autosaves :: "page \<Rightarrow> nat list" where
  "autosaves s = map fst (filter (\<lambda>e. snd e = CbAutosave) (fired s))"

text \<open>
  Every pending autosave timer is the one the variable \<open>autosaveTimer\<close> names.
\<close>

definition autosave_tracked :: "page \<Rightarrow> bool" where
  "autosave_tracked s =
     list_all (\<lambda>t. autosaveTimer s = Some (timer_id t)) (pending CbAutosave s)"

text \<open>
  The events that are neither a change made by the user (an edit, an undo, a redo: the
  engine reports all three with the source \<open>user\<close>) nor an import.
\<close>

fun quiet_event :: "event \<Rightarrow> bool" where
  "quiet_event (UserEdit c) = False"
| "quiet_event Undo = False"
| "quiet_event Redo = False"
| "quiet_event (ImportDocx conv confirmed) = False"
| "quiet_event e = True"


text \<open>
  Relations between the page before and after a handler, used to say what a handler
  leaves alone. \<open>calm\<close>: the clock, the history of the timers, the autosave flag and
  handle, the store's fault and the pending autosave timers are as before;
  \<open>undisturbed\<close>: the pending deferred triggers too. \<open>due_now\<close> are the timers that
  are due. \<open>autosave_off\<close>: the flag is cleared and no autosave timer is pending.
\<close>

definition calm :: "page \<Rightarrow> page \<Rightarrow> bool" where
  "calm s s' \<longleftrightarrow>
     now s' = now s \<and> fired s' = fired s \<and> isAutosaveEnabled s' = isAutosaveEnabled s \<and>
     autosaveTimer s' = autosaveTimer s \<and>
     write_fault (localStorage s') = write_fault (localStorage s) \<and>
     pending CbAutosave s' = pending CbAutosave s"

definition undisturbed :: "page \<Rightarrow> page \<Rightarrow> bool" where
  "undisturbed s s' \<longleftrightarrow>
     now s' = now s \<and> fired s' = fired s \<and> isAutosaveEnabled s' = isAutosaveEnabled s \<and>
     autosaveTimer s' = autosaveTimer s \<and>
     write_fault (localStorage s') = write_fault (localStorage s) \<and>
     pending CbAutosave s' = pending CbAutosave s \<and>
     pending CbTriggerAutosave s' = pending CbTriggerAutosave s"


definition autosave_off :: "page \<Rightarrow> bool" where
  "autosave_off s \<longleftrightarrow> \<not> isAutosaveEnabled s \<and> pending CbAutosave s = []"

text \<open>Stores, documents and pages used as concrete inputs.\<close>

definition empty_store :: storage where
  "empty_store = \<lparr>items = Map.empty, write_fault = None\<rparr>"

definition denied_store :: storage where
  "denied_store =
     \<lparr>items = Map.empty,
      write_fault = Some (JsError ''SecurityError'' ''The operation is insecure.'')\<rparr>"

definition full_store :: storage where
  "full_store =
     \<lparr>items = Map.empty,
      write_fault = Some (JsError ''QuotaExceededError'' ''The quota has been exceeded.'')\<rparr>"

definition damaged_store :: storage where
  "damaged_store = \<lparr>items = [STORAGE_KEY \<mapsto> Plain ''{not json''], write_fault = None\<rparr>"

definition null_store :: storage where
  "null_store = \<lparr>items = [STORAGE_KEY \<mapsto> Stringified JNull], write_fault = None\<rparr>"

definition hello_world :: "json list" where
  "hello_world = [JObj [(''insert'', JStr (''Hello World'' @ [CHR 0x0A]))]]"

definition one_word :: "json list" where
  "one_word = [JObj [(''insert'', JStr (''a'' @ [CHR 0x0A]))]]"

definition two_words :: "json list" where
  "two_words = [JObj [(''insert'', JStr (''a b'' @ [CHR 0x0A]))]]"

text \<open>
  The page over an empty store that accepts writes, and the page over a store that is
  denied, both once the scripts have started.
\<close>

definition typing_page :: page where
  "typing_page = start_page empty_store False"

definition no_store_page :: page where
  "no_store_page = start_page denied_store False"

text \<open>
  The page in which the user has typed \<open>Hello World\<close>; that page once the quota of the
  store has run out, once the store has begun to refuse writes for another reason, and
  once the user has saved the document;
  the pages started over a damaged record and over the record \<open>null\<close>, the user having
  declined to clear it.
\<close>

definition hello_page :: page where
  "hello_page = user_edit hello_world typing_page"

definition quota_page :: page where
  "quota_page = hello_page\<lparr>localStorage := full_store\<rparr>"

definition refused_page :: page where
  "refused_page = hello_page\<lparr>localStorage := denied_store\<rparr>"

definition saved_page :: page where
  "saved_page = performSave False hello_page"

text \<open>
  A document of white space only, and the page in which the user has replaced the saved
  \<open>Hello World\<close> by it.
\<close>

definition blank_document :: "json list" where
  "blank_document = [JObj [(''insert'', JStr (''  '' @ [CHR 0x0A]))]]"

definition blank_page :: page where
  "blank_page = user_edit blank_document saved_page"

definition damaged_page :: page where
  "damaged_page = start_page damaged_store False"

definition null_page :: page where
  "null_page = start_page null_store False"

text \<open>
  Runs of the export: a canvas ten thousand pixels high on an A4 page with no step
  failing, and a run in which the rasterisation throws.
\<close>

definition tall_env :: export_env where
  "tall_env = \<lparr>canvas_width = 1400, canvas_height = 10000, pdfWidth = 210, pdfHeight = 297,
               fault = None\<rparr>"

definition failing_env :: export_env where
  "failing_env = \<lparr>canvas_width = 1400, canvas_height = 10000, pdfWidth = 210, pdfHeight = 297,
                  fault = Some (Rasterize, JsError ''Error'' ''Unable to find element in cloned iframe'')\<rparr>"

section \<open>What the handlers leave alone\<close>

lemma pending_update [simp]:
  "pending cb (now_update f1 s) = pending cb s"
  "pending cb (next_timer_update f2 s) = pending cb s"
  "pending cb (fired_update f3 s) = pending cb s"
  "pending cb (quill_update f4 s) = pending cb s"
  "pending cb (wordCountTimer_update f5 s) = pending cb s"
  "pending cb (autosaveTimer_update f6 s) = pending cb s"
  "pending cb (isAutosaveEnabled_update f7 s) = pending cb s"
  "pending cb (localStorage_update f8 s) = pending cb s"
  "pending cb (autoSaveStatus_update f9 s) = pending cb s"
  "pending cb (wordCount_update f10 s) = pending cb s"
  "pending cb (dark_mode_update f11 s) = pending cb s"
  "pending cb (alerts_update f12 s) = pending cb s"
  "pending cb (console_errors_update f13 s) = pending cb s"
  "pending cb (body_update f14 s) = pending cb s"
  "pending cb (exportBtn_disabled_update f15 s) = pending cb s"
  "pending cb (exportBtn_text_update f16 s) = pending cb s"
  "pending cb (downloads_update f17 s) = pending cb s"
  by (simp_all add: pending_def)

lemma autosaves_update [simp]:
  "autosaves (now_update f1 s) = autosaves s"
  "autosaves (next_timer_update f2 s) = autosaves s"
  "autosaves (timers_update f3 s) = autosaves s"
  "autosaves (quill_update f4 s) = autosaves s"
  "autosaves (wordCountTimer_update f5 s) = autosaves s"
  "autosaves (autosaveTimer_update f6 s) = autosaves s"
  "autosaves (isAutosaveEnabled_update f7 s) = autosaves s"
  "autosaves (localStorage_update f8 s) = autosaves s"
  "autosaves (autoSaveStatus_update f9 s) = autosaves s"
  "autosaves (wordCount_update f10 s) = autosaves s"
  "autosaves (dark_mode_update f11 s) = autosaves s"
  "autosaves (alerts_update f12 s) = autosaves s"
  "autosaves (console_errors_update f13 s) = autosaves s"
  "autosaves (body_update f14 s) = autosaves s"
  "autosaves (exportBtn_disabled_update f15 s) = autosaves s"
  "autosaves (exportBtn_text_update f16 s) = autosaves s"
  "autosaves (downloads_update f17 s) = autosaves s"
  by (simp_all add: autosaves_def)

text \<open>Primitives\<close>

lemma alert_frame [simp]:
  "now (alert m s) = now s"
  "fired (alert m s) = fired s"
  "isAutosaveEnabled (alert m s) = isAutosaveEnabled s"
  "localStorage (alert m s) = localStorage s"
  "autosaveTimer (alert m s) = autosaveTimer s"
  "timers (alert m s) = timers s"
  "next_timer (alert m s) = next_timer s"
  "quill (alert m s) = quill s"
  "body (alert m s) = body s"
  "downloads (alert m s) = downloads s"
  "exportBtn_disabled (alert m s) = exportBtn_disabled s"
  "exportBtn_text (alert m s) = exportBtn_text s"
  "autoSaveStatus (alert m s) = autoSaveStatus s"
  "console_errors (alert m s) = console_errors s"
  "alerts (alert m s) = alerts s @ [m]"
  "pending cb (alert m s) = pending cb s"
  "autosaves (alert m s) = autosaves s"
  by (simp_all add: alert_def)

lemma console_error_frame [simp]:
  "now (console_error m s) = now s"
  "fired (console_error m s) = fired s"
  "isAutosaveEnabled (console_error m s) = isAutosaveEnabled s"
  "localStorage (console_error m s) = localStorage s"
  "autosaveTimer (console_error m s) = autosaveTimer s"
  "timers (console_error m s) = timers s"
  "next_timer (console_error m s) = next_timer s"
  "quill (console_error m s) = quill s"
  "body (console_error m s) = body s"
  "downloads (console_error m s) = downloads s"
  "exportBtn_disabled (console_error m s) = exportBtn_disabled s"
  "exportBtn_text (console_error m s) = exportBtn_text s"
  "autoSaveStatus (console_error m s) = autoSaveStatus s"
  "alerts (console_error m s) = alerts s"
  "console_errors (console_error m s) = console_errors s @ [m]"
  "pending cb (console_error m s) = pending cb s"
  "autosaves (console_error m s) = autosaves s"
  by (simp_all add: console_error_def)

lemma updateAutosaveStatus_frame [simp]:
  "now (updateAutosaveStatus st s) = now s"
  "fired (updateAutosaveStatus st s) = fired s"
  "isAutosaveEnabled (updateAutosaveStatus st s) = isAutosaveEnabled s"
  "localStorage (updateAutosaveStatus st s) = localStorage s"
  "autosaveTimer (updateAutosaveStatus st s) = autosaveTimer s"
  "quill (updateAutosaveStatus st s) = quill s"
  "body (updateAutosaveStatus st s) = body s"
  "downloads (updateAutosaveStatus st s) = downloads s"
  "exportBtn_disabled (updateAutosaveStatus st s) = exportBtn_disabled s"
  "exportBtn_text (updateAutosaveStatus st s) = exportBtn_text s"
  "alerts (updateAutosaveStatus st s) = alerts s"
  "console_errors (updateAutosaveStatus st s) = console_errors s"
  "autoSaveStatus (updateAutosaveStatus st s) = st"
  "autosaves (updateAutosaveStatus st s) = autosaves s"
  by (simp_all add: updateAutosaveStatus_def setTimeout_def Let_def)

lemma updateAutosaveStatus_timers:
  "timers (updateAutosaveStatus st s) =
     timers s @ (if st = Saved \<or> st = Loaded then [(next_timer s, now s + 3000, CbStatusReady)] else [])"
  by (simp add: updateAutosaveStatus_def setTimeout_def Let_def)

lemma updateAutosaveStatus_pending [simp]:
  "cb \<noteq> CbStatusReady \<Longrightarrow> pending cb (updateAutosaveStatus st s) = pending cb s"
  by (simp add: pending_def updateAutosaveStatus_timers callback_of_def)

lemma updateWordCount_frame [simp]:
  "now (updateWordCount s) = now s"
  "fired (updateWordCount s) = fired s"
  "isAutosaveEnabled (updateWordCount s) = isAutosaveEnabled s"
  "localStorage (updateWordCount s) = localStorage s"
  "autosaveTimer (updateWordCount s) = autosaveTimer s"
  "timers (updateWordCount s) = timers s"
  "next_timer (updateWordCount s) = next_timer s"
  "quill (updateWordCount s) = quill s"
  "body (updateWordCount s) = body s"
  "downloads (updateWordCount s) = downloads s"
  "exportBtn_disabled (updateWordCount s) = exportBtn_disabled s"
  "exportBtn_text (updateWordCount s) = exportBtn_text s"
  "alerts (updateWordCount s) = alerts s"
  "console_errors (updateWordCount s) = console_errors s"
  "autoSaveStatus (updateWordCount s) = autoSaveStatus s"
  "pending cb (updateWordCount s) = pending cb s"
  "autosaves (updateWordCount s) = autosaves s"
  by (simp_all add: updateWordCount_def Let_def split: option.splits)


lemma triggerAutosave_frame [simp]:
  "now (triggerAutosave s) = now s"
  "fired (triggerAutosave s) = fired s"
  "isAutosaveEnabled (triggerAutosave s) = isAutosaveEnabled s"
  "localStorage (triggerAutosave s) = localStorage s"
  "quill (triggerAutosave s) = quill s"
  "body (triggerAutosave s) = body s"
  "downloads (triggerAutosave s) = downloads s"
  "exportBtn_disabled (triggerAutosave s) = exportBtn_disabled s"
  "alerts (triggerAutosave s) = alerts s"
  "autosaves (triggerAutosave s) = autosaves s"
  by (simp_all add: triggerAutosave_def setTimeout_def clearTimeout_def Let_def autosaves_def
      split: option.splits)

lemma triggerAutosave_disabled [simp]:
  "\<not> isAutosaveEnabled s \<Longrightarrow> triggerAutosave s = s"
  by (simp add: triggerAutosave_def)

lemma triggerAutosave_timers:
  "isAutosaveEnabled s \<Longrightarrow>
   timers (triggerAutosave s) =
     filter (\<lambda>t. autosaveTimer s \<noteq> Some (timer_id t)) (timers s)
       @ [(next_timer s, now s + AUTOSAVE_DELAY, CbAutosave)]"
  by (cases "autosaveTimer s")
     (auto simp add: triggerAutosave_def setTimeout_def clearTimeout_def Let_def
        updateAutosaveStatus_timers intro: filter_cong)

lemma triggerAutosave_autosaveTimer:
  "isAutosaveEnabled s \<Longrightarrow> autosaveTimer (triggerAutosave s) = Some (next_timer s)"
  by (simp add: triggerAutosave_def setTimeout_def clearTimeout_def Let_def split: option.splits)

lemma triggerAutosave_rearms:
  assumes "isAutosaveEnabled s" "autosave_tracked s"
  shows "pending CbAutosave (triggerAutosave s) = [(next_timer s, now s + AUTOSAVE_DELAY, CbAutosave)]"
proof -
  have "filter (\<lambda>t. callback_of t = CbAutosave)
          (filter (\<lambda>t. autosaveTimer s \<noteq> Some (timer_id t)) (timers s)) = []"
    using assms(2)
    by (auto simp add: autosave_tracked_def pending_def list_all_iff filter_empty_conv)
  then show ?thesis
    using assms(1) by (simp add: pending_def triggerAutosave_timers callback_of_def)
qed

lemma triggerAutosave_tracked:
  "autosave_tracked s \<Longrightarrow> autosave_tracked (triggerAutosave s)"
proof (cases "isAutosaveEnabled s")
  case True
  assume "autosave_tracked s"
  with True show ?thesis
    by (simp add: autosave_tracked_def triggerAutosave_rearms[unfolded autosave_tracked_def]
        triggerAutosave_autosaveTimer timer_id_def)
next
  case False
  assume "autosave_tracked s"
  with False show ?thesis by simp
qed

lemma triggerAutosave_no_trigger:
  "pending CbTriggerAutosave s = [] \<Longrightarrow> pending CbTriggerAutosave (triggerAutosave s) = []"
  by (cases "isAutosaveEnabled s")
     (auto simp add: pending_def triggerAutosave_timers callback_of_def filter_empty_conv)

lemma performSave_frame [simp]:
  "now (performSave a s) = now s"
  "fired (performSave a s) = fired s"
  "isAutosaveEnabled (performSave a s) = isAutosaveEnabled s"
  "autosaveTimer (performSave a s) = autosaveTimer s"
  "quill (performSave a s) = quill s"
  "body (performSave a s) = body s"
  "downloads (performSave a s) = downloads s"
  "exportBtn_disabled (performSave a s) = exportBtn_disabled s"
  "write_fault (localStorage (performSave a s)) = write_fault (localStorage s)"
  "autosaves (performSave a s) = autosaves s"
  by (simp_all add: performSave_def performSave_try_def handleSaveError_def setItem_def Let_def
      split: option.splits sum.splits)

lemma performSave_pending [simp]:
  "cb \<noteq> CbStatusReady \<Longrightarrow> pending cb (performSave a s) = pending cb s"
  by (simp add: performSave_def performSave_try_def handleSaveError_def setItem_def Let_def
      split: option.splits sum.splits)


lemma run_handler_frame [simp]:
  "now (run_handler src s h) = now s"
  "fired (run_handler src s h) = fired s"
  "isAutosaveEnabled (run_handler src s h) = isAutosaveEnabled s"
  "localStorage (run_handler src s h) = localStorage s"
  "quill (run_handler src s h) = quill s"
  "body (run_handler src s h) = body s"
  "downloads (run_handler src s h) = downloads s"
  "exportBtn_disabled (run_handler src s h) = exportBtn_disabled s"
  "alerts (run_handler src s h) = alerts s"
  "autosaves (run_handler src s h) = autosaves s"
  by (cases h; simp)+

lemma run_handler_calm:
  "src \<noteq> User \<or> \<not> isAutosaveEnabled s \<Longrightarrow>
   timers (run_handler src s h) = timers s \<and> autosaveTimer (run_handler src s h) = autosaveTimer s
   \<and> next_timer (run_handler src s h) = next_timer s"
  by (cases h) auto

lemma run_handler_tracked:
  "autosave_tracked s \<Longrightarrow> autosave_tracked (run_handler src s h)"
  by (cases h) (auto simp add: triggerAutosave_tracked, simp add: autosave_tracked_def)

lemma run_handler_no_trigger:
  "pending CbTriggerAutosave s = [] \<Longrightarrow> pending CbTriggerAutosave (run_handler src s h) = []"
  by (cases h) (auto simp add: triggerAutosave_no_trigger)

lemma handlers_frame [simp]:
  "now (foldl (run_handler src) s hs) = now s"
  "fired (foldl (run_handler src) s hs) = fired s"
  "isAutosaveEnabled (foldl (run_handler src) s hs) = isAutosaveEnabled s"
  "localStorage (foldl (run_handler src) s hs) = localStorage s"
  "quill (foldl (run_handler src) s hs) = quill s"
  "body (foldl (run_handler src) s hs) = body s"
  "downloads (foldl (run_handler src) s hs) = downloads s"
  "exportBtn_disabled (foldl (run_handler src) s hs) = exportBtn_disabled s"
  "alerts (foldl (run_handler src) s hs) = alerts s"
  "autosaves (foldl (run_handler src) s hs) = autosaves s"
  by (induction hs arbitrary: s; simp)+

lemma handlers_calm:
  "src \<noteq> User \<or> \<not> isAutosaveEnabled s \<Longrightarrow>
   timers (foldl (run_handler src) s hs) = timers s
   \<and> autosaveTimer (foldl (run_handler src) s hs) = autosaveTimer s
   \<and> next_timer (foldl (run_handler src) s hs) = next_timer s"
proof (induction hs arbitrary: s)
  case Nil
  then show ?case by simp
next
  case (Cons h hs)
  have "src \<noteq> User \<or> \<not> isAutosaveEnabled (run_handler src s h)"
    using Cons.prems by simp
  from Cons.IH[OF this] run_handler_calm[OF Cons.prems, of h]
  show ?case by simp
qed

lemma handlers_tracked:
  "autosave_tracked s \<Longrightarrow> autosave_tracked (foldl (run_handler src) s hs)"
  by (induction hs arbitrary: s) (simp_all add: run_handler_tracked)

lemma handlers_no_trigger:
  "pending CbTriggerAutosave s = [] \<Longrightarrow> pending CbTriggerAutosave (foldl (run_handler src) s hs) = []"
  by (induction hs arbitrary: s) (simp_all add: run_handler_no_trigger)

lemma emit_text_change_frame [simp]:
  "now (emit_text_change src s) = now s"
  "fired (emit_text_change src s) = fired s"
  "isAutosaveEnabled (emit_text_change src s) = isAutosaveEnabled s"
  "localStorage (emit_text_change src s) = localStorage s"
  "quill (emit_text_change src s) = quill s"
  "body (emit_text_change src s) = body s"
  "downloads (emit_text_change src s) = downloads s"
  "exportBtn_disabled (emit_text_change src s) = exportBtn_disabled s"
  "alerts (emit_text_change src s) = alerts s"
  "autosaves (emit_text_change src s) = autosaves s"
  by (simp_all add: emit_text_change_def split: option.splits)

lemma emit_text_change_calm:
  "src \<noteq> User \<or> \<not> isAutosaveEnabled s \<Longrightarrow>
   timers (emit_text_change src s) = timers s
   \<and> autosaveTimer (emit_text_change src s) = autosaveTimer s
   \<and> next_timer (emit_text_change src s) = next_timer s"
  by (simp add: emit_text_change_def handlers_calm split: option.splits)

lemma emit_text_change_tracked:
  "autosave_tracked s \<Longrightarrow> autosave_tracked (emit_text_change src s)"
  by (simp add: emit_text_change_def handlers_tracked split: option.splits)

lemma emit_text_change_no_trigger:
  "pending CbTriggerAutosave s = [] \<Longrightarrow> pending CbTriggerAutosave (emit_text_change src s) = []"
  by (simp add: emit_text_change_def handlers_no_trigger split: option.splits)

lemma emit_api [simp]:
  "timers (emit_text_change Api s) = timers s"
  "autosaveTimer (emit_text_change Api s) = autosaveTimer s"
  "next_timer (emit_text_change Api s) = next_timer s"
  "pending cb (emit_text_change Api s) = pending cb s"
  using emit_text_change_calm[of Api s] by (simp_all add: pending_def)

lemma tracked_update [simp]:
  "autosave_tracked (now_update f1 s) = autosave_tracked s"
  "autosave_tracked (next_timer_update f2 s) = autosave_tracked s"
  "autosave_tracked (fired_update f3 s) = autosave_tracked s"
  "autosave_tracked (quill_update f4 s) = autosave_tracked s"
  "autosave_tracked (wordCountTimer_update f5 s) = autosave_tracked s"
  "autosave_tracked (isAutosaveEnabled_update f7 s) = autosave_tracked s"
  "autosave_tracked (localStorage_update f8 s) = autosave_tracked s"
  "autosave_tracked (autoSaveStatus_update f9 s) = autosave_tracked s"
  "autosave_tracked (wordCount_update f10 s) = autosave_tracked s"
  "autosave_tracked (dark_mode_update f11 s) = autosave_tracked s"
  "autosave_tracked (alerts_update f12 s) = autosave_tracked s"
  "autosave_tracked (console_errors_update f13 s) = autosave_tracked s"
  "autosave_tracked (body_update f14 s) = autosave_tracked s"
  "autosave_tracked (exportBtn_disabled_update f15 s) = autosave_tracked s"
  "autosave_tracked (exportBtn_text_update f16 s) = autosave_tracked s"
  "autosave_tracked (downloads_update f17 s) = autosave_tracked s"
  by (simp_all add: autosave_tracked_def)

text \<open>Engine operations\<close>

lemma quill_setContents_frame [simp]:
  "now (quill_setContents d s) = now s"
  "fired (quill_setContents d s) = fired s"
  "isAutosaveEnabled (quill_setContents d s) = isAutosaveEnabled s"
  "localStorage (quill_setContents d s) = localStorage s"
  "autosaveTimer (quill_setContents d s) = autosaveTimer s"
  "timers (quill_setContents d s) = timers s"
  "next_timer (quill_setContents d s) = next_timer s"
  "body (quill_setContents d s) = body s"
  "downloads (quill_setContents d s) = downloads s"
  "exportBtn_disabled (quill_setContents d s) = exportBtn_disabled s"
  "alerts (quill_setContents d s) = alerts s"
  "pending cb (quill_setContents d s) = pending cb s"
  "autosaves (quill_setContents d s) = autosaves s"
  by (simp_all add: quill_setContents_def split: option.splits)

lemma quill_setContents_quill [simp]:
  "quill s = Some q \<Longrightarrow> quill (quill_setContents d s) = Some (q\<lparr>contents := delta_ops d\<rparr>)"
  by (simp add: quill_setContents_def)

lemma quill_setText_empty_frame [simp]:
  "now (quill_setText_empty s) = now s"
  "fired (quill_setText_empty s) = fired s"
  "isAutosaveEnabled (quill_setText_empty s) = isAutosaveEnabled s"
  "localStorage (quill_setText_empty s) = localStorage s"
  "autosaveTimer (quill_setText_empty s) = autosaveTimer s"
  "timers (quill_setText_empty s) = timers s"
  "next_timer (quill_setText_empty s) = next_timer s"
  "body (quill_setText_empty s) = body s"
  "downloads (quill_setText_empty s) = downloads s"
  "exportBtn_disabled (quill_setText_empty s) = exportBtn_disabled s"
  "alerts (quill_setText_empty s) = alerts s"
  "pending cb (quill_setText_empty s) = pending cb s"
  "autosaves (quill_setText_empty s) = autosaves s"
  by (simp_all add: quill_setText_empty_def split: option.splits)

lemma quill_setText_empty_quill [simp]:
  "quill s = Some q \<Longrightarrow> quill (quill_setText_empty s) = Some (q\<lparr>contents := empty_document\<rparr>)"
  by (simp add: quill_setText_empty_def)

lemma history_clear_frame [simp]:
  "now (history_clear s) = now s"
  "fired (history_clear s) = fired s"
  "isAutosaveEnabled (history_clear s) = isAutosaveEnabled s"
  "localStorage (history_clear s) = localStorage s"
  "autosaveTimer (history_clear s) = autosaveTimer s"
  "timers (history_clear s) = timers s"
  "next_timer (history_clear s) = next_timer s"
  "body (history_clear s) = body s"
  "downloads (history_clear s) = downloads s"
  "exportBtn_disabled (history_clear s) = exportBtn_disabled s"
  "alerts (history_clear s) = alerts s"
  "pending cb (history_clear s) = pending cb s"
  "autosaves (history_clear s) = autosaves s"
  by (simp_all add: history_clear_def split: option.splits)

lemma history_clear_quill [simp]:
  "quill s = Some q \<Longrightarrow> quill (history_clear s) = Some (q\<lparr>undo_stack := [], redo_stack := []\<rparr>)"
  by (simp add: history_clear_def)


lemma tracked_cong:
  "pending CbAutosave s' = pending CbAutosave s \<Longrightarrow> autosaveTimer s' = autosaveTimer s \<Longrightarrow>
   autosave_tracked s' = autosave_tracked s"
  by (simp add: autosave_tracked_def)

lemma tracked_primitives [simp]:
  "autosave_tracked (alert m s) = autosave_tracked s"
  "autosave_tracked (console_error m s) = autosave_tracked s"
  "autosave_tracked (updateAutosaveStatus st s) = autosave_tracked s"
  "autosave_tracked (updateWordCount s) = autosave_tracked s"
  "autosave_tracked (performSave a s) = autosave_tracked s"
  "autosave_tracked (quill_setContents d s) = autosave_tracked s"
  "autosave_tracked (quill_setText_empty s) = autosave_tracked s"
  "autosave_tracked (history_clear s) = autosave_tracked s"
  by (rule tracked_cong; simp)+

text \<open>Changes by the user\<close>

lemma emit_user_off:
  "\<not> isAutosaveEnabled s \<Longrightarrow> timers (emit_text_change src s) = timers s"
  "\<not> isAutosaveEnabled s \<Longrightarrow> autosaveTimer (emit_text_change src s) = autosaveTimer s"
  using emit_text_change_calm[of src s] by simp_all

lemma history_undo_frame [simp]:
  "now (history_undo s) = now s"
  "fired (history_undo s) = fired s"
  "isAutosaveEnabled (history_undo s) = isAutosaveEnabled s"
  "body (history_undo s) = body s"
  "downloads (history_undo s) = downloads s"
  "exportBtn_disabled (history_undo s) = exportBtn_disabled s"
  "autosaves (history_undo s) = autosaves s"
  "write_fault (localStorage (history_undo s)) = write_fault (localStorage s)"
  by (simp_all add: history_undo_def split: option.splits list.splits)

lemma history_undo_off:
  "\<not> isAutosaveEnabled s \<Longrightarrow> timers (history_undo s) = timers s"
  by (simp add: history_undo_def emit_user_off split: option.splits list.splits)

lemma history_undo_tracked:
  "autosave_tracked s \<Longrightarrow> autosave_tracked (history_undo s)"
  by (simp add: history_undo_def emit_text_change_tracked split: option.splits list.splits)

lemma history_redo_frame [simp]:
  "now (history_redo s) = now s"
  "fired (history_redo s) = fired s"
  "isAutosaveEnabled (history_redo s) = isAutosaveEnabled s"
  "body (history_redo s) = body s"
  "downloads (history_redo s) = downloads s"
  "exportBtn_disabled (history_redo s) = exportBtn_disabled s"
  "autosaves (history_redo s) = autosaves s"
  "write_fault (localStorage (history_redo s)) = write_fault (localStorage s)"
  by (simp_all add: history_redo_def split: option.splits list.splits)

lemma history_redo_off:
  "\<not> isAutosaveEnabled s \<Longrightarrow> timers (history_redo s) = timers s"
  by (simp add: history_redo_def emit_user_off split: option.splits list.splits)

lemma history_redo_tracked:
  "autosave_tracked s \<Longrightarrow> autosave_tracked (history_redo s)"
  by (simp add: history_redo_def emit_text_change_tracked split: option.splits list.splits)

lemma user_edit_frame [simp]:
  "now (user_edit c s) = now s"
  "fired (user_edit c s) = fired s"
  "isAutosaveEnabled (user_edit c s) = isAutosaveEnabled s"
  "body (user_edit c s) = body s"
  "downloads (user_edit c s) = downloads s"
  "exportBtn_disabled (user_edit c s) = exportBtn_disabled s"
  "autosaves (user_edit c s) = autosaves s"
  "write_fault (localStorage (user_edit c s)) = write_fault (localStorage s)"
  by (simp_all add: user_edit_def split: option.splits list.splits)

lemma user_edit_off:
  "\<not> isAutosaveEnabled s \<Longrightarrow> timers (user_edit c s) = timers s"
  by (simp add: user_edit_def emit_user_off split: option.splits list.splits)

lemma user_edit_tracked:
  "autosave_tracked s \<Longrightarrow> autosave_tracked (user_edit c s)"
  by (simp add: user_edit_def emit_text_change_tracked split: option.splits list.splits)

lemma undoChange_frame [simp]:
  "now (undoChange s) = now s"
  "fired (undoChange s) = fired s"
  "isAutosaveEnabled (undoChange s) = isAutosaveEnabled s"
  "body (undoChange s) = body s"
  "downloads (undoChange s) = downloads s"
  "exportBtn_disabled (undoChange s) = exportBtn_disabled s"
  "autosaves (undoChange s) = autosaves s"
  "write_fault (localStorage (undoChange s)) = write_fault (localStorage s)"
  by (simp_all add: undoChange_def split: option.splits list.splits)

lemma undoChange_off:
  "\<not> isAutosaveEnabled s \<Longrightarrow> timers (undoChange s) = timers s"
  by (simp add: undoChange_def emit_user_off history_undo_off history_redo_off split: option.splits list.splits)

lemma undoChange_tracked:
  "autosave_tracked s \<Longrightarrow> autosave_tracked (undoChange s)"
  by (simp add: undoChange_def emit_text_change_tracked history_undo_tracked history_redo_tracked split: option.splits list.splits)

lemma redoChange_frame [simp]:
  "now (redoChange s) = now s"
  "fired (redoChange s) = fired s"
  "isAutosaveEnabled (redoChange s) = isAutosaveEnabled s"
  "body (redoChange s) = body s"
  "downloads (redoChange s) = downloads s"
  "exportBtn_disabled (redoChange s) = exportBtn_disabled s"
  "autosaves (redoChange s) = autosaves s"
  "write_fault (localStorage (redoChange s)) = write_fault (localStorage s)"
  by (simp_all add: redoChange_def split: option.splits list.splits)

lemma redoChange_off:
  "\<not> isAutosaveEnabled s \<Longrightarrow> timers (redoChange s) = timers s"
  by (simp add: redoChange_def emit_user_off history_undo_off history_redo_off split: option.splits list.splits)

lemma redoChange_tracked:
  "autosave_tracked s \<Longrightarrow> autosave_tracked (redoChange s)"
  by (simp add: redoChange_def emit_text_change_tracked history_undo_tracked history_redo_tracked split: option.splits list.splits)



lemma createNewDocument_undisturbed: "undisturbed s (createNewDocument c s)"
  by (simp add: undisturbed_def createNewDocument_def Let_def split: option.splits)

lemma manualSave_undisturbed: "undisturbed s (manualSave s)"
  by (simp add: undisturbed_def manualSave_def)

lemma toggleDarkMode_undisturbed: "undisturbed s (after (toggleDarkMode s))"
  by (simp add: undisturbed_def toggleDarkMode_def setItem_def Let_def split: option.splits)

lemma loadSavedDocument_try_undisturbed:
  "loadSavedDocument_try s = Inr s' \<Longrightarrow> undisturbed s s'"
  by (auto simp add: undisturbed_def loadSavedDocument_try_def Let_def
      split: option.splits sum.splits if_splits)

lemma handleLoadError_undisturbed: "undisturbed s (after (handleLoadError e c s))"
  by (simp add: undisturbed_def handleLoadError_def removeItem_def Let_def split: option.splits)

lemma loadSavedDocument_undisturbed: "undisturbed s (after (loadSavedDocument c s))"
  by (simp add: loadSavedDocument_def loadSavedDocument_try_undisturbed handleLoadError_undisturbed
      split: sum.splits)

lemma undisturbed_trans: "undisturbed s s1 \<Longrightarrow> undisturbed s1 s2 \<Longrightarrow> undisturbed s s2"
  by (simp add: undisturbed_def)

lemma undisturbed_alert [simp]: "undisturbed s (alert m s1) = undisturbed s s1"
  by (simp add: undisturbed_def)

lemma manualLoad_undisturbed: "undisturbed s (after (manualLoad c1 c2 s))"
proof (cases c1)
  case False
  then show ?thesis by (simp add: manualLoad_def undisturbed_def)
next
  case True
  have u: "undisturbed s (after (loadSavedDocument c2 s))"
    by (rule loadSavedDocument_undisturbed)
  show ?thesis
    using True u
    by (cases "loadSavedDocument c2 s")
       (simp_all add: manualLoad_def Let_def split: option.splits sum.splits)
qed

lemma clearSavedDocument_undisturbed: "undisturbed s (clearSavedDocument c s)"
  by (simp add: undisturbed_def clearSavedDocument_def removeItem_def Let_def)

lemma removeChild_frame [simp]:
  "now (removeChild n s) = now s"
  "fired (removeChild n s) = fired s"
  "isAutosaveEnabled (removeChild n s) = isAutosaveEnabled s"
  "autosaveTimer (removeChild n s) = autosaveTimer s"
  "localStorage (removeChild n s) = localStorage s"
  "timers (removeChild n s) = timers s"
  "pending cb (removeChild n s) = pending cb s"
  "quill (removeChild n s) = quill s"
  "alerts (removeChild n s) = alerts s"
  "downloads (removeChild n s) = downloads s"
  "exportBtn_disabled (removeChild n s) = exportBtn_disabled s"
  "exportBtn_text (removeChild n s) = exportBtn_text s"
  "body (removeChild n s) = remove1 n (body s)"
  by (simp_all add: removeChild_def)

lemma export_try_undisturbed: "undisturbed s (after (export_try env s))"
  by (simp add: undisturbed_def export_try_def Let_def split: option.splits)

lemma exportPDF_click_undisturbed: "undisturbed s (exportPDF_click env s)"
proof -
  let ?s1 = "s\<lparr>exportBtn_disabled := True, exportBtn_text := ''Exporting...''\<rparr>"
  have "undisturbed ?s1 (after (export_try env ?s1))"
    by (rule export_try_undisturbed)
  then show ?thesis
    by (cases "export_try env ?s1")
       (simp_all add: undisturbed_def exportPDF_click_def Let_def split: option.splits)
qed


text \<open>Import\<close>

lemma setTimeout_frame [simp]:
  "now (snd (setTimeout cb d s)) = now s"
  "fired (snd (setTimeout cb d s)) = fired s"
  "isAutosaveEnabled (snd (setTimeout cb d s)) = isAutosaveEnabled s"
  "autosaveTimer (snd (setTimeout cb d s)) = autosaveTimer s"
  "localStorage (snd (setTimeout cb d s)) = localStorage s"
  "quill (snd (setTimeout cb d s)) = quill s"
  "alerts (snd (setTimeout cb d s)) = alerts s"
  "body (snd (setTimeout cb d s)) = body s"
  "downloads (snd (setTimeout cb d s)) = downloads s"
  "exportBtn_disabled (snd (setTimeout cb d s)) = exportBtn_disabled s"
  "autosaves (snd (setTimeout cb d s)) = autosaves s"
  "cb' \<noteq> cb \<Longrightarrow> pending cb' (snd (setTimeout cb d s)) = pending cb' s"
  by (simp_all add: setTimeout_def pending_def callback_of_def)

lemma undisturbed_calm: "undisturbed s s' \<Longrightarrow> calm s s'"
  by (simp add: undisturbed_def calm_def)

lemma insertHtmlIntoQuill_calm: "insertHtmlIntoQuill ops s = Inr s' \<Longrightarrow> calm s s'"
  by (auto simp add: calm_def insertHtmlIntoQuill_def Let_def split: option.splits)

lemma handleFileSelect_calm: "calm s (after (handleFileSelect conv c s))"
proof (cases conv)
  case (Inl e)
  then show ?thesis
    by (simp add: calm_def handleFileSelect_def split: option.splits)
next
  case (Inr ops)
  show ?thesis
  proof (cases "insertHtmlIntoQuill ops s")
    case (Inl e)
    with Inr show ?thesis
      by (simp add: calm_def handleFileSelect_def split: option.splits)
  next
    case (Inr s1)
    from insertHtmlIntoQuill_calm[OF this] have "calm s s1" .
    with Inr \<open>conv = Inr ops\<close> show ?thesis
      by (simp add: calm_def handleFileSelect_def split: option.splits)
  qed
qed

text \<open>Steps other than the passing of time\<close>

lemma step_quiet:
  "quiet_event e \<Longrightarrow> e \<noteq> Tick \<Longrightarrow> undisturbed s (step s e)"
  by (cases e)
     (simp_all add: createNewDocument_undisturbed manualSave_undisturbed manualLoad_undisturbed
        clearSavedDocument_undisturbed exportPDF_click_undisturbed toggleDarkMode_undisturbed,
      simp add: undisturbed_def)

lemma step_frame:
  assumes "e \<noteq> Tick"
  shows "now (step s e) = now s" and "autosaves (step s e) = autosaves s"
    and "isAutosaveEnabled (step s e) = isAutosaveEnabled s"
    and "write_fault (localStorage (step s e)) = write_fault (localStorage s)"
proof -
  have "now (step s e) = now s \<and> fired (step s e) = fired s
      \<and> isAutosaveEnabled (step s e) = isAutosaveEnabled s
      \<and> write_fault (localStorage (step s e)) = write_fault (localStorage s)"
  proof (cases "quiet_event e")
    case True
    from step_quiet[OF this assms, of s] show ?thesis by (simp add: undisturbed_def)
  next
    case False
    then show ?thesis
      using handleFileSelect_calm by (cases e) (simp_all add: calm_def)
  qed
  then show "now (step s e) = now s" and "autosaves (step s e) = autosaves s"
    and "isAutosaveEnabled (step s e) = isAutosaveEnabled s"
    and "write_fault (localStorage (step s e)) = write_fault (localStorage s)"
    by (simp_all add: autosaves_def)
qed

lemma step_off:
  assumes "e \<noteq> Tick" "\<not> isAutosaveEnabled s"
  shows "pending CbAutosave (step s e) = pending CbAutosave s"
proof (cases "quiet_event e")
  case True
  from step_quiet[OF this assms(1), of s] show ?thesis by (simp add: undisturbed_def)
next
  case False
  then show ?thesis
    using handleFileSelect_calm assms(2)
    by (cases e) (simp_all add: calm_def pending_def user_edit_off undoChange_off redoChange_off)
qed

lemma step_tracked:
  assumes "e \<noteq> Tick" "autosave_tracked s"
  shows "autosave_tracked (step s e)"
proof (cases "quiet_event e")
  case True
  from step_quiet[OF this assms(1), of s] assms(2) show ?thesis
    by (simp add: undisturbed_def autosave_tracked_def)
next
  case False
  then show ?thesis
    using handleFileSelect_calm assms(2)
    by (cases e)
       (simp_all add: user_edit_tracked undoChange_tracked redoChange_tracked,
        simp add: calm_def autosave_tracked_def)
qed


text \<open>Timers\<close>

lemma run_callback_frame [simp]:
  "now (run_callback cb s) = now s"
  "fired (run_callback cb s) = fired s"
  "isAutosaveEnabled (run_callback cb s) = isAutosaveEnabled s"
  "write_fault (localStorage (run_callback cb s)) = write_fault (localStorage s)"
  "autosaves (run_callback cb s) = autosaves s"
  by (cases cb; simp)+

lemma run_callback_tracked:
  "autosave_tracked s \<Longrightarrow> autosave_tracked (run_callback cb s)"
  by (cases cb) (simp_all add: triggerAutosave_tracked)

lemma run_callback_off:
  "\<not> isAutosaveEnabled s \<Longrightarrow> pending CbAutosave (run_callback cb s) = pending CbAutosave s"
  by (cases cb) simp_all











text \<open>Autosave switched off\<close>

lemma fire_off:
  assumes "autosave_off s" "t \<in> set (timers s)"
  shows "autosave_off (fire t s) \<and> autosaves (fire t s) = autosaves s
       \<and> write_fault (localStorage (fire t s)) = write_fault (localStorage s)
       \<and> now (fire t s) = now s"
proof -
  from assms have nc: "callback_of t \<noteq> CbAutosave"
    by (auto simp add: autosave_off_def pending_def filter_empty_conv)
  let ?s1 = "s\<lparr>timers := remove1 t (timers s), fired := fired s @ [(now s, callback_of t)]\<rparr>"
  have "pending CbAutosave ?s1 = []"
    using assms(1) by (auto simp add: autosave_off_def pending_def filter_empty_conv dest: notin_set_remove1)
  moreover have "\<not> isAutosaveEnabled ?s1" using assms(1) by (simp add: autosave_off_def)
  ultimately have "autosave_off (fire t s)"
    by (simp add: autosave_off_def fire_def run_callback_off)
  moreover have "autosaves (fire t s) = autosaves s"
    using nc by (simp add: fire_def autosaves_def)
  ultimately show ?thesis by (simp add: fire_def)
qed

lemma fire_due_off:
  "autosave_off s \<Longrightarrow>
   autosave_off (fire_due n s) \<and> autosaves (fire_due n s) = autosaves s
   \<and> write_fault (localStorage (fire_due n s)) = write_fault (localStorage s)
   \<and> now (fire_due n s) = now s"
proof (induction n arbitrary: s)
  case 0
  then show ?case by simp
next
  case (Suc n)
  show ?case
  proof (cases "find (\<lambda>t. due t \<le> now s) (timers s)")
    case None
    with Suc.prems show ?thesis by simp
  next
    case (Some t)
    then have "t \<in> set (timers s)" by (auto simp add: find_Some_iff)
    from fire_off[OF Suc.prems this] Suc.IH[of "fire t s"] Some show ?thesis by simp
  qed
qed

lemma tick_off:
  assumes "autosave_off s"
  shows "autosave_off (tick s) \<and> autosaves (tick s) = autosaves s
       \<and> write_fault (localStorage (tick s)) = write_fault (localStorage s)"
proof -
  have "autosave_off (s\<lparr>now := Suc (now s)\<rparr>)"
    using assms by (simp add: autosave_off_def)
  from fire_due_off[OF this] show ?thesis by (simp add: tick_def Let_def)
qed

lemma step_autosave_off:
  assumes "autosave_off s"
  shows "autosave_off (step s e) \<and> autosaves (step s e) = autosaves s
       \<and> write_fault (localStorage (step s e)) = write_fault (localStorage s)"
proof (cases "e = Tick")
  case True
  with tick_off[OF assms] show ?thesis by simp
next
  case False
  from assms have "\<not> isAutosaveEnabled s" by (simp add: autosave_off_def)
  from step_frame[OF False, of s] step_off[OF False this] assms show ?thesis
    by (simp add: autosave_off_def)
qed

lemma run_autosave_off:
  "autosave_off s \<Longrightarrow>
   autosave_off (run evs s) \<and> autosaves (run evs s) = autosaves s
   \<and> write_fault (localStorage (run evs s)) = write_fault (localStorage s)"
proof (induction evs arbitrary: s)
  case Nil
  then show ?case by (simp add: run_def)
next
  case (Cons e evs)
  from step_autosave_off[OF Cons.prems, of e] Cons.IH[of "step s e"] show ?case
    by (simp add: run_def)
qed

text \<open>The tracking invariant\<close>

lemma fire_tracked:
  assumes "autosave_tracked s"
  shows "autosave_tracked (fire t s)"
proof -
  have sub: "set (remove1 t (timers s)) \<subseteq> set (timers s)"
    by (rule set_remove1_subset)
  have "autosave_tracked (s\<lparr>timers := remove1 t (timers s), fired := fired s @ [(now s, callback_of t)]\<rparr>)"
    using assms sub
    by (auto simp add: autosave_tracked_def pending_def list_all_iff)
  then show ?thesis by (simp add: fire_def run_callback_tracked)
qed

lemma fire_due_tracked:
  "autosave_tracked s \<Longrightarrow> autosave_tracked (fire_due n s)"
  by (induction n arbitrary: s) (auto simp add: fire_tracked split: option.splits)

lemma tick_tracked: "autosave_tracked s \<Longrightarrow> autosave_tracked (tick s)"
  by (simp add: tick_def Let_def fire_due_tracked)

lemma run_tracked: "autosave_tracked s \<Longrightarrow> autosave_tracked (run evs s)"
proof (induction evs arbitrary: s)
  case Nil
  then show ?case by (simp add: run_def)
next
  case (Cons e evs)
  have "autosave_tracked (step s e)"
    using Cons.prems step_tracked[of e s] tick_tracked[of s] by (cases "e = Tick") simp_all
  from Cons.IH[OF this] show ?case by (simp add: run_def)
qed

section \<open>Concrete pages\<close>



lemma typing_page_eq:
  "typing_page =
     \<lparr>now = 0, next_timer = 1, timers = [], fired = [],
      quill = Some \<lparr>contents = empty_document, undo_stack = [], redo_stack = [],
                    handlers = [EditorWordCount, StorageAutosave]\<rparr>,
      wordCountTimer = None, autosaveTimer = None, isAutosaveEnabled = True,
      localStorage = empty_store, autoSaveStatus = Ready, wordCount = (0, 0), dark_mode = False,
      alerts = [], console_errors = [], body = [], exportBtn_disabled = False,
      exportBtn_text = ''PDF'', downloads = []\<rparr>"
  by (simp add: typing_page_def start_page_def loaded_page_def fresh_page_def storage_module_load_def
      isLocalStorageAvailable_def setItem_def removeItem_def empty_store_def Let_def
      initializeEditor_def updateWordCount_def getText_def empty_document_def trim_def
      is_space_def setupStorageListeners_def loadSavedDocument_def loadSavedDocument_try_def
      getItem_def STORAGE_KEY_def updateAutosaveStatus_def)

lemma no_store_page_eq:
  "no_store_page =
     \<lparr>now = 0, next_timer = 1, timers = [], fired = [],
      quill = Some \<lparr>contents = empty_document, undo_stack = [], redo_stack = [],
                    handlers = [EditorWordCount, StorageAutosave]\<rparr>,
      wordCountTimer = None, autosaveTimer = None, isAutosaveEnabled = False,
      localStorage = denied_store, autoSaveStatus = Ready, wordCount = (0, 0), dark_mode = False,
      alerts = [''LocalStorage is not available. Documents cannot be saved in this browser.''],
      console_errors = [], body = [], exportBtn_disabled = False,
      exportBtn_text = ''PDF'', downloads = []\<rparr>"
  by (simp add: no_store_page_def start_page_def loaded_page_def fresh_page_def storage_module_load_def
      isLocalStorageAvailable_def setItem_def removeItem_def denied_store_def Let_def
      initializeEditor_def updateWordCount_def getText_def empty_document_def trim_def
      is_space_def setupStorageListeners_def loadSavedDocument_def loadSavedDocument_try_def
      getItem_def STORAGE_KEY_def updateAutosaveStatus_def alert_def)

lemma hello_page_eq:
  "hello_page =
     \<lparr>now = 0, next_timer = 2, timers = [(1, 2000, CbAutosave)], fired = [],
      quill = Some \<lparr>contents = hello_world, undo_stack = [empty_document], redo_stack = [],
                    handlers = [EditorWordCount, StorageAutosave]\<rparr>,
      wordCountTimer = None, autosaveTimer = Some 1, isAutosaveEnabled = True,
      localStorage = empty_store, autoSaveStatus = Pending, wordCount = (2, 11), dark_mode = False,
      alerts = [], console_errors = [], body = [], exportBtn_disabled = False,
      exportBtn_text = ''PDF'', downloads = []\<rparr>"
  by (simp add: hello_page_def typing_page_eq user_edit_def emit_text_change_def
      updateWordCount_def triggerAutosave_def setTimeout_def updateAutosaveStatus_def
      AUTOSAVE_DELAY_def getText_def hello_world_def trim_def is_space_def Let_def)

lemma hello_page_text:
  "trim (getText \<lparr>contents = hello_world, undo_stack = [empty_document], redo_stack = [],
             handlers = [EditorWordCount, StorageAutosave]\<rparr>) = ''Hello World''"
  by (simp add: getText_def hello_world_def trim_def is_space_def)

lemma saved_page_eq:
  "saved_page =
     \<lparr>now = 0, next_timer = 3, timers = [(1, 2000, CbAutosave), (2, 3000, CbStatusReady)],
      fired = [],
      quill = Some \<lparr>contents = hello_world, undo_stack = [empty_document], redo_stack = [],
                    handlers = [EditorWordCount, StorageAutosave]\<rparr>,
      wordCountTimer = None, autosaveTimer = Some 1, isAutosaveEnabled = True,
      localStorage =
        \<lparr>items = [STORAGE_KEY \<mapsto> Stringified (JObj
                  [(''content'', JObj [(''ops'', JArr hello_world)]),
                   (''timestamp'', JNum 0), (''version'', JStr ''1.0''),
                   (''wordCount'', JNum 2)])],
         write_fault = None\<rparr>,
      autoSaveStatus = Saved, wordCount = (2, 11), dark_mode = False,
      alerts = [''Document saved successfully!''], console_errors = [], body = [],
      exportBtn_disabled = False, exportBtn_text = ''PDF'', downloads = []\<rparr>"
  by (simp add: saved_page_def hello_page_eq performSave_def performSave_try_def setItem_def
      empty_store_def JSON_stringify_def saveData_def getContents_def count_words_def
      updateAutosaveStatus_def setTimeout_def alert_def
      getText_def hello_world_def trim_def is_space_def Let_def)

lemma blank_page_eq:
  "blank_page =
     \<lparr>now = 0, next_timer = 4, timers = [(2, 3000, CbStatusReady), (3, 2000, CbAutosave)],
      fired = [],
      quill = Some \<lparr>contents = blank_document, undo_stack = [hello_world, empty_document],
                    redo_stack = [], handlers = [EditorWordCount, StorageAutosave]\<rparr>,
      wordCountTimer = None, autosaveTimer = Some 3, isAutosaveEnabled = True,
      localStorage =
        \<lparr>items = [STORAGE_KEY \<mapsto> Stringified (JObj
                  [(''content'', JObj [(''ops'', JArr hello_world)]),
                   (''timestamp'', JNum 0), (''version'', JStr ''1.0''),
                   (''wordCount'', JNum 2)])],
         write_fault = None\<rparr>,
      autoSaveStatus = Pending, wordCount = (0, 0), dark_mode = False,
      alerts = [''Document saved successfully!''], console_errors = [], body = [],
      exportBtn_disabled = False, exportBtn_text = ''PDF'', downloads = []\<rparr>"
  by (simp add: blank_page_def saved_page_eq user_edit_def emit_text_change_def
      updateWordCount_def triggerAutosave_def setTimeout_def clearTimeout_def timer_id_def
      updateAutosaveStatus_def AUTOSAVE_DELAY_def getText_def blank_document_def
      trim_def is_space_def Let_def)

lemma reloaded_no_store_page_eq:
  "storage_module_load no_store_page =
     \<lparr>now = 0, next_timer = 1, timers = [], fired = [],
      quill = Some \<lparr>contents = empty_document, undo_stack = [], redo_stack = [],
                    handlers = [EditorWordCount, StorageAutosave]\<rparr>,
      wordCountTimer = None, autosaveTimer = None, isAutosaveEnabled = False,
      localStorage = denied_store, autoSaveStatus = Error, wordCount = (0, 0), dark_mode = False,
      alerts = [''LocalStorage is not available. Documents cannot be saved in this browser.'',
                ''LocalStorage is not available. Documents cannot be saved in this browser.''],
      console_errors = [], body = [], exportBtn_disabled = False,
      exportBtn_text = ''PDF'', downloads = []\<rparr>"
  by (simp add: no_store_page_eq storage_module_load_def isLocalStorageAvailable_def
      setItem_def denied_store_def updateAutosaveStatus_def alert_def Let_def)

lemma loaded_page_quill:
  "quill (loaded_page st)
     = Some \<lparr>contents = empty_document, undo_stack = [], redo_stack = [],
             handlers = [EditorWordCount, StorageAutosave]\<rparr>"
  by (simp add: loaded_page_def initializeEditor_def setupStorageListeners_def Let_def)

lemma loaded_page_item:
  "k \<noteq> ''__localStorage_test__'' \<Longrightarrow>
   getItem (localStorage (loaded_page st)) k = getItem st k"
  by (simp add: loaded_page_def initializeEditor_def setupStorageListeners_def Let_def
      storage_module_load_def isLocalStorageAvailable_def setItem_def removeItem_def
      fresh_page_def getItem_def split: option.splits)

lemma quota_page_facts:
  "quill quota_page
     = Some \<lparr>contents = hello_world, undo_stack = [empty_document], redo_stack = [],
             handlers = [EditorWordCount, StorageAutosave]\<rparr>"
  "write_fault (localStorage quota_page)
     = Some (JsError ''QuotaExceededError'' ''The quota has been exceeded.'')"
  "alerts quota_page = []"
  "trim (getText \<lparr>contents = hello_world, undo_stack = [empty_document], redo_stack = [],
             handlers = [EditorWordCount, StorageAutosave]\<rparr>) = ''Hello World''"
  by (simp_all add: quota_page_def hello_page_eq full_store_def getText_def hello_world_def
      trim_def is_space_def)

lemma refused_page_facts:
  "quill refused_page
     = Some \<lparr>contents = hello_world, undo_stack = [empty_document], redo_stack = [],
             handlers = [EditorWordCount, StorageAutosave]\<rparr>"
  "write_fault (localStorage refused_page)
     = Some (JsError ''SecurityError'' ''The operation is insecure.'')"
  "alerts refused_page = []"
  by (simp_all add: refused_page_def hello_page_eq denied_store_def)

lemma damaged_page_eq:
  "damaged_page =
     \<lparr>now = 0, next_timer = 1, timers = [], fired = [],
      quill = Some \<lparr>contents = empty_document, undo_stack = [], redo_stack = [],
                    handlers = [EditorWordCount, StorageAutosave]\<rparr>,
      wordCountTimer = None, autosaveTimer = None, isAutosaveEnabled = True,
      localStorage = \<lparr>items = (Map.empty(STORAGE_KEY \<mapsto> Plain ''{not json''))
                                 (''__localStorage_test__'' := None),
                       write_fault = None\<rparr>,
      autoSaveStatus = Ready, wordCount = (0, 0), dark_mode = False,
      alerts = [], console_errors = [''Load failed''], body = [], exportBtn_disabled = False,
      exportBtn_text = ''PDF'', downloads = []\<rparr>"
  by (simp add: damaged_page_def start_page_def loaded_page_def fresh_page_def
      storage_module_load_def
      isLocalStorageAvailable_def setItem_def removeItem_def damaged_store_def Let_def
      initializeEditor_def updateWordCount_def getText_def empty_document_def trim_def
      is_space_def setupStorageListeners_def loadSavedDocument_def loadSavedDocument_try_def
      handleLoadError_def console_error_def
      getItem_def STORAGE_KEY_def updateAutosaveStatus_def)

lemma null_page_eq:
  "null_page =
     \<lparr>now = 0, next_timer = 1, timers = [], fired = [],
      quill = Some \<lparr>contents = empty_document, undo_stack = [], redo_stack = [],
                    handlers = [EditorWordCount, StorageAutosave]\<rparr>,
      wordCountTimer = None, autosaveTimer = None, isAutosaveEnabled = True,
      localStorage = \<lparr>items = (Map.empty(STORAGE_KEY \<mapsto> Stringified JNull))
                                 (''__localStorage_test__'' := None),
                       write_fault = None\<rparr>,
      autoSaveStatus = Ready, wordCount = (0, 0), dark_mode = False,
      alerts = [''Failed to load document. The saved data may be corrupted.''],
      console_errors = [''Load failed''], body = [], exportBtn_disabled = False,
      exportBtn_text = ''PDF'', downloads = []\<rparr>"
  by (simp add: null_page_def start_page_def loaded_page_def fresh_page_def
      storage_module_load_def
      isLocalStorageAvailable_def setItem_def removeItem_def null_store_def Let_def
      initializeEditor_def updateWordCount_def getText_def empty_document_def trim_def
      is_space_def setupStorageListeners_def loadSavedDocument_def loadSavedDocument_try_def
      handleLoadError_def console_error_def alert_def
      getItem_def STORAGE_KEY_def updateAutosaveStatus_def)

text \<open>
  Every page that the started page can reach keeps the tracking invariant.
\<close>

lemma loaded_page_pending: "pending cb (loaded_page st) = []"
  by (simp add: loaded_page_def initializeEditor_def setupStorageListeners_def Let_def
      storage_module_load_def isLocalStorageAvailable_def setItem_def removeItem_def
      fresh_page_def pending_def updateAutosaveStatus_timers split: option.splits)

lemma start_page_pending:
  "pending CbAutosave (start_page st c) = []" "pending CbTriggerAutosave (start_page st c) = []"
proof -
  from loadSavedDocument_undisturbed[of "loaded_page st" c]
  have u: "pending CbAutosave (after (loadSavedDocument c (loaded_page st))) = []"
    "pending CbTriggerAutosave (after (loadSavedDocument c (loaded_page st))) = []"
    by (simp_all add: undisturbed_def loaded_page_pending)
  then show "pending CbAutosave (start_page st c) = []"
    "pending CbTriggerAutosave (start_page st c) = []"
    by (cases "loadSavedDocument c (loaded_page st)"; simp add: start_page_def)+
qed

lemma reachable_tracked: "autosave_tracked (run evs (start_page st c))"
proof -
  have "autosave_tracked (start_page st c)"
    by (simp add: autosave_tracked_def start_page_pending)
  then show ?thesis by (rule run_tracked)
qed

section \<open>Saving, loading and exporting\<close>

lemma performSave_writes:
  assumes "quill s = Some q" "write_fault (localStorage s) = None"
    "\<not> (isAutomatic \<and> trim (getText q) = [])"
  shows "items (localStorage (performSave isAutomatic s)) STORAGE_KEY
           = Some (JSON_stringify (saveData q (now s)))"
  using assms
  by (auto simp add: performSave_def performSave_try_def setItem_def Let_def)

lemma loadSavedDocument_try_saved:
  assumes "items (localStorage s) STORAGE_KEY = Some (JSON_stringify (saveData q t))"
    and "quill s = Some q'"
  shows "loadSavedDocument_try s
           = Inr (updateAutosaveStatus Loaded (history_clear (quill_setContents (getContents q) s)))"
  using assms
  by (simp add: loadSavedDocument_try_def getItem_def JSON_stringify_def saveData_def
      getContents_def Let_def)

lemma loadSavedDocument_try_applied:
  assumes "loadSavedDocument_try s = Inr s'"
    and "\<not> absent (getItem (localStorage s) STORAGE_KEY)"
  shows "\<exists>q content. quill s = Some q
       \<and> s' = updateAutosaveStatus Loaded (history_clear (quill_setContents content s))"
  using assms
  by (auto simp add: loadSavedDocument_try_def Let_def
      split: option.splits sum.splits if_splits)

lemma export_try_success:
  assumes "fault env = None"
  shows "export_try env s =
     Returns (alert ''PDF downloaded successfully!''
       (s\<lparr>downloads := downloads s @
            [\<lparr>stamp = now s,
              pages = [[\<lparr>at_x = 10, at_y = 10, img_width = pdfWidth env - 20,
                        img_height = (if canvas_width env = 0 then None
                                      else Some ((of_nat (canvas_height env) * (pdfWidth env - 20))
                                                 / of_nat (canvas_width env)))\<rparr>]]\<rparr>],
          body := remove1 Overlay (remove1 Wrapper (body s @ [Overlay, Wrapper])),
          exportBtn_disabled := False, exportBtn_text := ''PDF''\<rparr>))"
  using assms
  by (simp add: export_try_def throws_at_def removeChild_def Let_def)

lemma export_try_failure:
  assumes "fault env = Some (st, e)"
  shows "export_try env s = Throws e (s\<lparr>body := body s @ [Overlay, Wrapper]\<rparr>)"
  using assms
  by (cases st) (simp_all add: export_try_def throws_at_def Let_def)

section \<open>The claims\<close>





text \<open>
  C2. With an engine present: an automatic save of a document whose trimmed plain text
  is empty leaves the store as it is and reports the status \<open>disabled\<close>; that status is
  reported by a save exactly when it is automatic and the text is empty; a manual save
  over a store that accepts the write puts the Save Record under the fixed key and
  reports \<open>saved\<close>, whatever the text.
\<close>

theorem performSave_empty_gate:
  assumes "quill s = Some q"
  shows "(trim (getText q) = [] \<longrightarrow>
            localStorage (performSave True s) = localStorage s
            \<and> autoSaveStatus (performSave True s) = Disabled)
       \<and> (autoSaveStatus (performSave isAutomatic s) = Disabled
            \<longleftrightarrow> isAutomatic \<and> trim (getText q) = [])
       \<and> (write_fault (localStorage s) = None \<longrightarrow>
            items (localStorage (performSave False s)) STORAGE_KEY
              = Some (JSON_stringify (saveData q (now s)))
            \<and> autoSaveStatus (performSave False s) = Saved)"
  using assms
  by (auto simp add: performSave_def performSave_try_def handleSaveError_def setItem_def Let_def
      split: option.splits)

theorem performSave_empty_gate_witness:
  "quill typing_page
     = Some \<lparr>contents = empty_document, undo_stack = [], redo_stack = [],
             handlers = [EditorWordCount, StorageAutosave]\<rparr>
   \<and> trim (getText \<lparr>contents = empty_document, undo_stack = [], redo_stack = [],
                    handlers = [EditorWordCount, StorageAutosave]\<rparr>) = []
   \<and> write_fault (localStorage typing_page) = None
   \<and> localStorage (performSave True typing_page) = localStorage typing_page
   \<and> autoSaveStatus (performSave True typing_page) = Disabled
   \<and> autoSaveStatus (performSave False typing_page) = Saved
   \<and> items (localStorage (performSave False typing_page)) STORAGE_KEY
       = Some (Stringified (JObj [(''content'', JObj [(''ops'', JArr empty_document)]),
                                  (''timestamp'', JNum 0), (''version'', JStr ''1.0''),
                                  (''wordCount'', JNum 0)]))"
proof -
  let ?q = "\<lparr>contents = empty_document, undo_stack = [], redo_stack = [],
             handlers = [EditorWordCount, StorageAutosave]\<rparr>"
  have q: "quill typing_page = Some ?q" by (simp add: typing_page_eq)
  have e: "trim (getText ?q) = []"
    by (simp add: getText_def empty_document_def trim_def is_space_def)
  have w: "write_fault (localStorage typing_page) = None"
    by (simp add: typing_page_eq empty_store_def)
  have n: "now typing_page = 0" by (simp add: typing_page_eq)
  from performSave_empty_gate[OF q, of True] q e w n show ?thesis
    by (simp add: JSON_stringify_def saveData_def getContents_def count_words_def)
qed

text \<open>
  C3 (as amended). Let a save write the record of the engine's document: the store
  accepts the write, and the save is not an automatic save of a document whose trimmed
  plain text is empty, which \<open>performSave\<close> skips. On any page whose store holds that
  record under the fixed key and which has an engine, restoring returns normally and
  leaves the engine with the operations, hence the plain text, of the document that was
  saved.
\<close>

theorem save_restore_roundtrip:
  assumes "quill s = Some q" and "write_fault (localStorage s) = None"
    and "\<not> (isAutomatic \<and> trim (getText q) = [])"
    and "getItem (localStorage s') STORAGE_KEY
           = getItem (localStorage (performSave isAutomatic s)) STORAGE_KEY"
    and "quill s' = Some q'"
  shows "loadSavedDocument confirm_clear s'
           = Returns (updateAutosaveStatus Loaded
               (history_clear (quill_setContents (getContents q) s')))
       \<and> map_option getText (quill (after (loadSavedDocument confirm_clear s'))) = Some (getText q)
       \<and> map_option contents (quill (after (loadSavedDocument confirm_clear s'))) = Some (contents q)"
proof -
  from performSave_writes[OF assms(1) assms(2) assms(3)] assms(4)
  have "items (localStorage s') STORAGE_KEY = Some (JSON_stringify (saveData q (now s)))"
    by (simp add: getItem_def)
  from loadSavedDocument_try_saved[OF this assms(5)]
  have l: "loadSavedDocument confirm_clear s'
         = Returns (updateAutosaveStatus Loaded (history_clear (quill_setContents (getContents q) s')))"
    by (simp add: loadSavedDocument_def)
  have "quill (updateAutosaveStatus Loaded (history_clear (quill_setContents (getContents q) s')))
          = Some (q'\<lparr>contents := contents q, undo_stack := [], redo_stack := []\<rparr>)"
    using assms(5) by (simp add: getContents_def)
  with l show ?thesis by (simp add: getText_def)
qed


theorem save_restore_roundtrip_witness:
  "quill hello_page
     = Some \<lparr>contents = hello_world, undo_stack = [empty_document], redo_stack = [],
             handlers = [EditorWordCount, StorageAutosave]\<rparr>
   \<and> write_fault (localStorage hello_page) = None
   \<and> trim (getText \<lparr>contents = hello_world, undo_stack = [empty_document], redo_stack = [],
                    handlers = [EditorWordCount, StorageAutosave]\<rparr>) = ''Hello World''
   \<and> map_option getText
        (quill (after (loadSavedDocument False
           (loaded_page (localStorage (performSave True hello_page))))))
       = Some (''Hello World'' @ [CHR 0x0A])"
proof -
  let ?q = "\<lparr>contents = hello_world, undo_stack = [empty_document], redo_stack = [],
             handlers = [EditorWordCount, StorageAutosave]\<rparr>"
  let ?s' = "loaded_page (localStorage (performSave True hello_page))"
  have q: "quill hello_page = Some ?q" by (simp add: hello_page_eq)
  have w: "write_fault (localStorage hello_page) = None"
    by (simp add: hello_page_eq empty_store_def)
  have t: "trim (getText ?q) = ''Hello World''"
    by (simp add: getText_def hello_world_def trim_def is_space_def)
  then have g: "\<not> (True \<and> trim (getText ?q) = [])" by simp
  have k: "getItem (localStorage ?s') STORAGE_KEY
         = getItem (localStorage (performSave True hello_page)) STORAGE_KEY"
    by (rule loaded_page_item) (simp add: STORAGE_KEY_def)
  have x: "getText ?q = ''Hello World'' @ [CHR 0x0A]"
    by (simp add: getText_def hello_world_def)
  from save_restore_roundtrip[OF q w g k loaded_page_quill, of False]
  have "map_option getText (quill (after (loadSavedDocument False ?s'))) = Some (getText ?q)"
    by blast
  then have "map_option getText (quill (after (loadSavedDocument False ?s')))
           = Some (''Hello World'' @ [CHR 0x0A])"
    by (simp only: x)
  with q w t show ?thesis by blast
qed

text \<open>
  C3 as stated fails for a document of white space only that is saved automatically: the
  save is skipped, the store keeps the record of \<open>Hello World\<close> saved before, and
  restoring yields that document, not the one that was to be saved.
\<close>

theorem save_restore_roundtrip_counterexample:
  "map_option getText (quill blank_page) = Some (''  '' @ [CHR 0x0A])
   \<and> write_fault (localStorage blank_page) = None
   \<and> autoSaveStatus (performSave True blank_page) = Disabled
   \<and> localStorage (performSave True blank_page) = localStorage blank_page
   \<and> map_option getText (quill (after (loadSavedDocument False (performSave True blank_page))))
       = Some (''Hello World'' @ [CHR 0x0A])"
  by (simp add: blank_page_eq performSave_def performSave_try_def
      updateAutosaveStatus_def setTimeout_def getText_def blank_document_def hello_world_def
      trim_def is_space_def Let_def
      loadSavedDocument_def loadSavedDocument_try_def getItem_def quill_setContents_def
      emit_text_change_def updateWordCount_def history_clear_def)


text \<open>
  C4. After \<open>createNewDocument\<close> with the user's confirmation, and after a restore that
  found a record and applied it, both stacks of the engine's history are empty and
  \<open>undoChange\<close> leaves the page, so the engine's content, as it is.
\<close>

theorem history_empty_after_new_and_restore:
  "(quill s = Some q \<longrightarrow>
      map_option undo_stack (quill (createNewDocument True s)) = Some []
      \<and> map_option redo_stack (quill (createNewDocument True s)) = Some []
      \<and> undoChange (createNewDocument True s) = createNewDocument True s)
   \<and> (loadSavedDocument_try s = Inr s' \<and> \<not> absent (getItem (localStorage s) STORAGE_KEY) \<longrightarrow>
      map_option undo_stack (quill s') = Some []
      \<and> map_option redo_stack (quill s') = Some []
      \<and> undoChange s' = s')"
proof -
  have a: "map_option undo_stack (quill (createNewDocument True s)) = Some []
      \<and> map_option redo_stack (quill (createNewDocument True s)) = Some []
      \<and> undoChange (createNewDocument True s) = createNewDocument True s"
    if "quill s = Some q"
  proof -
    have "quill (createNewDocument True s)
            = Some (q\<lparr>contents := empty_document, undo_stack := [], redo_stack := []\<rparr>)"
      using that by (simp add: createNewDocument_def)
    then show ?thesis by (simp add: undoChange_def history_undo_def)
  qed
  have b: "map_option undo_stack (quill s') = Some []
      \<and> map_option redo_stack (quill s') = Some []
      \<and> undoChange s' = s'"
    if "loadSavedDocument_try s = Inr s'" "\<not> absent (getItem (localStorage s) STORAGE_KEY)"
  proof -
    from loadSavedDocument_try_applied[OF that] obtain q0 content where
      "quill s = Some q0"
      "s' = updateAutosaveStatus Loaded (history_clear (quill_setContents content s))"
      by blast
    then have "quill s' = Some (q0\<lparr>contents := delta_ops content, undo_stack := [], redo_stack := []\<rparr>)"
      by simp
    then show ?thesis by (simp add: undoChange_def history_undo_def)
  qed
  from a b show ?thesis by blast
qed


theorem history_empty_after_new_and_restore_witness:
  "quill hello_page
     = Some \<lparr>contents = hello_world, undo_stack = [empty_document], redo_stack = [],
             handlers = [EditorWordCount, StorageAutosave]\<rparr>
   \<and> undoChange (createNewDocument True hello_page) = createNewDocument True hello_page
   \<and> loadSavedDocument_try saved_page
       = Inr (updateAutosaveStatus Loaded (history_clear (quill_setContents
           (JObj [(''ops'', JArr hello_world)]) saved_page)))
   \<and> \<not> absent (getItem (localStorage saved_page) STORAGE_KEY)
   \<and> undoChange (updateAutosaveStatus Loaded (history_clear (quill_setContents
           (JObj [(''ops'', JArr hello_world)]) saved_page)))
       = updateAutosaveStatus Loaded (history_clear (quill_setContents
           (JObj [(''ops'', JArr hello_world)]) saved_page))"
proof -
  let ?q = "\<lparr>contents = hello_world, undo_stack = [empty_document], redo_stack = [],
             handlers = [EditorWordCount, StorageAutosave]\<rparr>"
  let ?s' = "updateAutosaveStatus Loaded (history_clear (quill_setContents
           (JObj [(''ops'', JArr hello_world)]) saved_page))"
  have q: "quill hello_page = Some ?q" by (simp add: hello_page_eq)
  have w: "write_fault (localStorage hello_page) = None"
    by (simp add: hello_page_eq empty_store_def)
  have i: "items (localStorage saved_page) STORAGE_KEY = Some (JSON_stringify (saveData ?q (now hello_page)))"
    unfolding saved_page_def by (rule performSave_writes[OF q w]) simp
  have q2: "quill saved_page = Some ?q" by (simp add: saved_page_def q)
  have l: "loadSavedDocument_try saved_page = Inr ?s'"
    using loadSavedDocument_try_saved[OF i q2] by (simp add: getContents_def)
  have a: "\<not> absent (getItem (localStorage saved_page) STORAGE_KEY)"
    by (simp add: getItem_def i JSON_stringify_def)
  from history_empty_after_new_and_restore[of hello_page ?q] q
  have n: "undoChange (createNewDocument True hello_page) = createNewDocument True hello_page"
    by blast
  from history_empty_after_new_and_restore[of saved_page _ ?s'] l a
  have r: "undoChange ?s' = ?s'" by blast
  from q n l a r show ?thesis by blast
qed

text \<open>
  C5 (as amended). When the write of a save fails: a manual save shows the message that
  suggests clearing data or exporting if the error is \<open>QuotaExceededError\<close>, and the
  generic failure message otherwise; an automatic save shows no message. Both report the
  status \<open>error\<close>, log the failure on the console and leave the store as it is.
\<close>

theorem save_failure_messages:
  assumes "quill s = Some q" and "write_fault (localStorage s) = Some e"
    and "\<not> (isAutomatic \<and> trim (getText q) = [])"
  shows "alerts (performSave isAutomatic s)
           = alerts s @
             (if isAutomatic then []
              else [if err_name e = ''QuotaExceededError''
                    then ''Storage quota exceeded! Please clear some browser data or export your document.''
                    else ''Failed to save document. Please try again.''])
       \<and> autoSaveStatus (performSave isAutomatic s) = Error
       \<and> console_errors (performSave isAutomatic s) = console_errors s @ [''Save failed'']
       \<and> localStorage (performSave isAutomatic s) = localStorage s"
  using assms
  by (auto simp add: performSave_def performSave_try_def handleSaveError_def setItem_def Let_def)

theorem save_failure_messages_witness:
  "quill quota_page
     = Some \<lparr>contents = hello_world, undo_stack = [empty_document], redo_stack = [],
             handlers = [EditorWordCount, StorageAutosave]\<rparr>
   \<and> write_fault (localStorage quota_page)
     = Some (JsError ''QuotaExceededError'' ''The quota has been exceeded.'')
   \<and> trim (getText \<lparr>contents = hello_world, undo_stack = [empty_document], redo_stack = [],
             handlers = [EditorWordCount, StorageAutosave]\<rparr>) = ''Hello World''
   \<and> alerts (performSave False quota_page)
     = [''Storage quota exceeded! Please clear some browser data or export your document.'']
   \<and> autoSaveStatus (performSave False quota_page) = Error"
proof -
  have g: "\<not> (False \<and> trim (getText \<lparr>contents = hello_world, undo_stack = [empty_document],
             redo_stack = [], handlers = [EditorWordCount, StorageAutosave]\<rparr>) = [])"
    by simp
  from save_failure_messages[OF quota_page_facts(1) quota_page_facts(2) g] quota_page_facts
  show ?thesis by simp
qed

text \<open>
  C5 as stated fails for an automatic save: with the quota exhausted no message is shown,
  and what the user sees is the same as for any other failure.
\<close>

theorem save_failure_messages_counterexample:
  "write_fault (localStorage quota_page)
     = Some (JsError ''QuotaExceededError'' ''The quota has been exceeded.'')
   \<and> alerts quota_page = []
   \<and> alerts (performSave True quota_page) = []
   \<and> autoSaveStatus (performSave True quota_page) = Error
   \<and> alerts (performSave True refused_page) = []
   \<and> autoSaveStatus (performSave True refused_page) = Error"
  using quota_page_facts refused_page_facts
  by (simp add: performSave_def performSave_try_def handleSaveError_def setItem_def Let_def)

text \<open>
  C6 does not hold of the code: the listener that \<open>initializeEditor\<close> registers calls
  \<open>updateWordCount\<close> itself, and \<open>debouncedWordCountUpdate\<close> is called nowhere. In a
  burst of two edits at the same instant the count is computed and displayed after the
  first edit already, and no word-count timer is ever pending.
\<close>

theorem word_count_runs_on_every_change:
  "run_handler src s EditorWordCount = updateWordCount s
   \<and> now (user_edit one_word typing_page) = now typing_page
   \<and> wordCount (user_edit one_word typing_page) = (1, 1)
   \<and> wordCountTimer (user_edit one_word typing_page) = None
   \<and> pending CbWordCount (user_edit one_word typing_page) = []
   \<and> wordCount (user_edit two_words (user_edit one_word typing_page)) = (2, 3)
   \<and> pending CbWordCount (user_edit two_words (user_edit one_word typing_page)) = []"
  by (simp add: typing_page_eq user_edit_def emit_text_change_def
      updateWordCount_def triggerAutosave_def setTimeout_def clearTimeout_def
      updateAutosaveStatus_def pending_def callback_of_def timer_id_def
      AUTOSAVE_DELAY_def getText_def one_word_def two_words_def trim_def is_space_def Let_def)


text \<open>
  C7 (as amended). An export in which no step fails downloads one file of one page that
  holds one image, placed at (10, 10), as wide as the page less 20 and as high as that
  width times the height of the canvas over its width, so that the aspect ratio of the
  canvas is kept. No further page is added, whatever the height of the image.
\<close>

theorem export_single_page:
  assumes "quill s = Some q" and "trim (getText q) \<noteq> []" and "fault env = None"
  shows "downloads (exportPDF_click env s)
           = downloads s @
             [\<lparr>stamp = now s,
               pages = [[\<lparr>at_x = 10, at_y = 10, img_width = pdfWidth env - 20,
                         img_height = (if canvas_width env = 0 then None
                                       else Some ((of_nat (canvas_height env) * (pdfWidth env - 20))
                                                  / of_nat (canvas_width env)))\<rparr>]]\<rparr>]
       \<and> (canvas_width env \<noteq> 0 \<longrightarrow>
            ((of_nat (canvas_height env) * (pdfWidth env - 20)) / of_nat (canvas_width env))
              * of_nat (canvas_width env)
            = of_nat (canvas_height env) * (pdfWidth env - 20))"
  using assms
  by (simp add: exportPDF_click_def export_try_success Let_def)

theorem export_single_page_witness:
  "quill hello_page
     = Some \<lparr>contents = hello_world, undo_stack = [empty_document], redo_stack = [],
             handlers = [EditorWordCount, StorageAutosave]\<rparr>
   \<and> trim (getText \<lparr>contents = hello_world, undo_stack = [empty_document], redo_stack = [],
             handlers = [EditorWordCount, StorageAutosave]\<rparr>) = ''Hello World''
   \<and> fault tall_env = None
   \<and> canvas_width tall_env = 1400
   \<and> downloads (exportPDF_click tall_env hello_page)
       = [\<lparr>stamp = 0,
           pages = [[\<lparr>at_x = 10, at_y = 10, img_width = 190, img_height = Some (9500 / 7)\<rparr>]]\<rparr>]"
proof -
  have q: "quill hello_page
     = Some \<lparr>contents = hello_world, undo_stack = [empty_document], redo_stack = [],
             handlers = [EditorWordCount, StorageAutosave]\<rparr>"
    by (simp add: hello_page_eq)
  have t: "trim (getText \<lparr>contents = hello_world, undo_stack = [empty_document], redo_stack = [],
             handlers = [EditorWordCount, StorageAutosave]\<rparr>) \<noteq> []"
    by (simp add: hello_page_text)
  have f: "fault tall_env = None" by (simp add: tall_env_def)
  have d: "downloads hello_page = []" "now hello_page = 0" by (simp_all add: hello_page_eq)
  from export_single_page[OF q t f] q f d hello_page_text show ?thesis
    by (simp add: tall_env_def)
qed

text \<open>
  C7 as stated fails for a tall canvas: the image is higher than the page and the file
  still has a single page.
\<close>

theorem export_single_page_counterexample:
  "map pages (downloads (exportPDF_click tall_env hello_page))
     = [[[\<lparr>at_x = 10, at_y = 10, img_width = 190, img_height = Some (9500 / 7)\<rparr>]]]
   \<and> pdfHeight tall_env < 10 + 9500 / 7"
proof -
  have q: "quill hello_page
     = Some \<lparr>contents = hello_world, undo_stack = [empty_document], redo_stack = [],
             handlers = [EditorWordCount, StorageAutosave]\<rparr>"
    by (simp add: hello_page_eq)
  have d: "downloads hello_page = []" by (simp add: hello_page_eq)
  have f: "fault tall_env = None" by (simp add: tall_env_def)
  have "downloads (exportPDF_click tall_env hello_page)
          = [\<lparr>stamp = now hello_page,
              pages = [[\<lparr>at_x = 10, at_y = 10, img_width = pdfWidth tall_env - 20,
                        img_height = (if canvas_width tall_env = 0 then None
                                      else Some ((of_nat (canvas_height tall_env) * (pdfWidth tall_env - 20))
                                                 / of_nat (canvas_width tall_env)))\<rparr>]]\<rparr>]"
    using q d hello_page_text
    by (simp add: exportPDF_click_def export_try_success[OF f] Let_def)
  then show ?thesis
    by (simp add: tall_env_def)
qed

text \<open>
  C8. Let the engine be present, no off-screen element be in the document and the
  button be enabled. An export of a document whose trimmed plain text is empty shows the
  blocking message, downloads nothing and leaves the document's elements and the button
  as they are. An export in which a step throws shows a message that ends with the text
  of the exception, leaves no off-screen element behind and has the button enabled with
  its label restored.
\<close>

theorem export_failure_cleanup:
  assumes "quill s = Some q" and "Overlay \<notin> set (body s)" and "Wrapper \<notin> set (body s)"
    and "\<not> exportBtn_disabled s"
  shows "(trim (getText q) = [] \<longrightarrow>
            body (exportPDF_click env s) = body s
            \<and> downloads (exportPDF_click env s) = downloads s
            \<and> alerts (exportPDF_click env s)
                = alerts s @ [''Document is empty. Please add content first.'']
            \<and> \<not> exportBtn_disabled (exportPDF_click env s))
       \<and> (trim (getText q) \<noteq> [] \<and> fault env = Some (st, e) \<longrightarrow>
            body (exportPDF_click env s) = body s
            \<and> alerts (exportPDF_click env s) = alerts s @ [''Export failed: '' @ err_message e]
            \<and> \<not> exportBtn_disabled (exportPDF_click env s)
            \<and> exportBtn_text (exportPDF_click env s) = ''PDF'')"
  using assms
  by (auto simp add: exportPDF_click_def export_try_failure Let_def remove1_append)

theorem export_failure_cleanup_witness:
  "quill typing_page
     = Some \<lparr>contents = empty_document, undo_stack = [], redo_stack = [],
             handlers = [EditorWordCount, StorageAutosave]\<rparr>
   \<and> trim (getText \<lparr>contents = empty_document, undo_stack = [], redo_stack = [],
             handlers = [EditorWordCount, StorageAutosave]\<rparr>) = []
   \<and> body typing_page = [] \<and> \<not> exportBtn_disabled typing_page
   \<and> body (exportPDF_click tall_env typing_page) = []
   \<and> downloads (exportPDF_click tall_env typing_page) = []
   \<and> alerts (exportPDF_click tall_env typing_page) = [''Document is empty. Please add content first.'']
   \<and> quill hello_page
     = Some \<lparr>contents = hello_world, undo_stack = [empty_document], redo_stack = [],
             handlers = [EditorWordCount, StorageAutosave]\<rparr>
   \<and> trim (getText \<lparr>contents = hello_world, undo_stack = [empty_document], redo_stack = [],
             handlers = [EditorWordCount, StorageAutosave]\<rparr>) = ''Hello World''
   \<and> fault failing_env = Some (Rasterize, JsError ''Error'' ''Unable to find element in cloned iframe'')
   \<and> body hello_page = [] \<and> \<not> exportBtn_disabled hello_page
   \<and> body (exportPDF_click failing_env hello_page) = []
   \<and> alerts (exportPDF_click failing_env hello_page)
       = [''Export failed: Unable to find element in cloned iframe'']
   \<and> \<not> exportBtn_disabled (exportPDF_click failing_env hello_page)
   \<and> exportBtn_text (exportPDF_click failing_env hello_page) = ''PDF''"
proof -
  let ?q0 = "\<lparr>contents = empty_document, undo_stack = [], redo_stack = [],
             handlers = [EditorWordCount, StorageAutosave]\<rparr>"
  let ?q1 = "\<lparr>contents = hello_world, undo_stack = [empty_document], redo_stack = [],
             handlers = [EditorWordCount, StorageAutosave]\<rparr>"
  have a: "quill typing_page = Some ?q0" "Overlay \<notin> set (body typing_page)"
    "Wrapper \<notin> set (body typing_page)" "\<not> exportBtn_disabled typing_page"
    by (simp_all add: typing_page_eq)
  have a': "trim (getText ?q0) = []" "body typing_page = []" "alerts typing_page = []"
    "downloads typing_page = []"
    by (simp_all add: typing_page_eq getText_def empty_document_def trim_def is_space_def)
  have b: "quill hello_page = Some ?q1" "Overlay \<notin> set (body hello_page)"
    "Wrapper \<notin> set (body hello_page)" "\<not> exportBtn_disabled hello_page"
    by (simp_all add: hello_page_eq)
  have b': "body hello_page = []" "alerts hello_page = []"
    "fault failing_env = Some (Rasterize, JsError ''Error'' ''Unable to find element in cloned iframe'')"
    by (simp_all add: hello_page_eq failing_env_def)
  from export_failure_cleanup[OF a, of tall_env] a'
  have r0: "body (exportPDF_click tall_env typing_page) = []"
    "downloads (exportPDF_click tall_env typing_page) = []"
    "alerts (exportPDF_click tall_env typing_page) = [''Document is empty. Please add content first.'']"
    by simp_all
  from export_failure_cleanup[OF b, of failing_env Rasterize
      "JsError ''Error'' ''Unable to find element in cloned iframe''"] b' hello_page_text
  have r1: "body (exportPDF_click failing_env hello_page) = []"
    "alerts (exportPDF_click failing_env hello_page)
       = [''Export failed: Unable to find element in cloned iframe'']"
    "\<not> exportBtn_disabled (exportPDF_click failing_env hello_page)"
    "exportBtn_text (exportPDF_click failing_env hello_page) = ''PDF''"
    by simp_all
  from a a' b b' r0 r1 hello_page_text show ?thesis by simp
qed

text \<open>
  C9 does not hold of the code: with a damaged record in the store, \<open>loadSavedDocument\<close>
  catches the SyntaxError, and when the user declines to clear the record \<open>manualLoad\<close>
  parses it a second time outside any \<open>try\<close>; the SyntaxError escapes to the page.
  With the record \<open>null\<close> the TypeError of reading its time stamp escapes likewise.
\<close>

theorem manualLoad_unhandled_exception:
  "getItem (localStorage damaged_page) STORAGE_KEY = Some (Plain ''{not json'')
   \<and> manualLoad True False damaged_page
       = Throws (JsError ''SyntaxError'' ''Unexpected token in JSON'')
           (console_error ''Load failed'' damaged_page)
   \<and> getItem (localStorage null_page) STORAGE_KEY = Some (Stringified JNull)
   \<and> manualLoad True False null_page
       = Throws (JsError ''TypeError'' ''Cannot read properties of null (reading timestamp)'')
           (updateAutosaveStatus Error
              (alert ''Failed to load document. The saved data may be corrupted.''
                 (console_error ''Load failed'' null_page)))"
  by (simp add: damaged_page_eq null_page_eq manualLoad_def loadSavedDocument_def
      loadSavedDocument_try_def handleLoadError_def console_error_def alert_def
      updateAutosaveStatus_def getItem_def STORAGE_KEY_def Let_def)

text \<open>
  C10. If the store refuses writes when the storage script loads, and no autosave timer
  is pending then, the script clears \<open>isAutosaveEnabled\<close>, and after any events
  whatever the flag is still cleared, \<open>triggerAutosave\<close> returns the page as it is, no
  autosave timer is pending and the timer has run no \<open>performSave(true)\<close>; a manual
  save then leaves the store as it is, reports the error status and shows a message.
\<close>

theorem autosave_disabled_for_session:
  assumes "write_fault (localStorage s) = Some e" and "pending CbAutosave s = []"
  shows "\<not> isAutosaveEnabled (storage_module_load s)
       \<and> \<not> isAutosaveEnabled (run evs (storage_module_load s))
       \<and> triggerAutosave (run evs (storage_module_load s)) = run evs (storage_module_load s)
       \<and> pending CbAutosave (run evs (storage_module_load s)) = []
       \<and> autosaves (run evs (storage_module_load s)) = autosaves s
       \<and> localStorage (manualSave (run evs (storage_module_load s)))
           = localStorage (run evs (storage_module_load s))
       \<and> autoSaveStatus (manualSave (run evs (storage_module_load s))) = Error
       \<and> alerts (manualSave (run evs (storage_module_load s)))
           \<noteq> alerts (run evs (storage_module_load s))"
proof -
  let ?s1 = "storage_module_load s"
  let ?s2 = "run evs ?s1"
  have l: "\<not> isAutosaveEnabled ?s1" "pending CbAutosave ?s1 = []" "autosaves ?s1 = autosaves s"
    "write_fault (localStorage ?s1) = Some e"
    using assms
    by (simp_all add: storage_module_load_def isLocalStorageAvailable_def setItem_def Let_def)
  then have off: "autosave_off ?s1" by (simp add: autosave_off_def)
  from run_autosave_off[OF off, of evs] l
  have r: "autosave_off ?s2" "autosaves ?s2 = autosaves s" "write_fault (localStorage ?s2) = Some e"
    by simp_all
  have m: "localStorage (manualSave ?s2) = localStorage ?s2
         \<and> autoSaveStatus (manualSave ?s2) = Error
         \<and> alerts (manualSave ?s2) \<noteq> alerts ?s2"
    using r(3)
    by (simp add: manualSave_def performSave_def performSave_try_def handleSaveError_def
        setItem_def Let_def split: option.splits)
  from l r m show ?thesis by (simp add: autosave_off_def)
qed

theorem autosave_disabled_for_session_witness:
  "write_fault (localStorage no_store_page)
     = Some (JsError ''SecurityError'' ''The operation is insecure.'')
   \<and> pending CbAutosave no_store_page = []
   \<and> map_option handlers (quill (storage_module_load no_store_page))
       = Some [EditorWordCount, StorageAutosave]
   \<and> map_option getText (quill (run [UserEdit hello_world] (storage_module_load no_store_page)))
       = Some (''Hello World'' @ [CHR 0x0A])
   \<and> \<not> isAutosaveEnabled (run [UserEdit hello_world] (storage_module_load no_store_page))
   \<and> pending CbAutosave (run [UserEdit hello_world] (storage_module_load no_store_page)) = []
   \<and> autosaves (run (UserEdit hello_world # replicate 2000 Tick)
                   (storage_module_load no_store_page)) = []
   \<and> localStorage (manualSave (run (UserEdit hello_world # replicate 2000 Tick)
                                  (storage_module_load no_store_page)))
       = localStorage (run (UserEdit hello_world # replicate 2000 Tick)
                         (storage_module_load no_store_page))
   \<and> autoSaveStatus (manualSave (run (UserEdit hello_world # replicate 2000 Tick)
                                    (storage_module_load no_store_page))) = Error"
proof -
  have h: "write_fault (localStorage no_store_page)
             = Some (JsError ''SecurityError'' ''The operation is insecure.'')"
    "pending CbAutosave no_store_page = []"
    by (simp_all add: no_store_page_eq denied_store_def pending_def)
  have a: "autosaves no_store_page = []"
    by (simp add: no_store_page_eq autosaves_def)
  have q: "map_option handlers (quill (storage_module_load no_store_page))
       = Some [EditorWordCount, StorageAutosave]"
    by (simp add: reloaded_no_store_page_eq)
  have t: "map_option getText (quill (run [UserEdit hello_world] (storage_module_load no_store_page)))
       = Some (''Hello World'' @ [CHR 0x0A])"
    by (simp add: run_def reloaded_no_store_page_eq user_edit_def getText_def hello_world_def)
  from autosave_disabled_for_session[OF h, of "[UserEdit hello_world]"]
  have r1: "\<not> isAutosaveEnabled (run [UserEdit hello_world] (storage_module_load no_store_page))"
    "pending CbAutosave (run [UserEdit hello_world] (storage_module_load no_store_page)) = []"
    by blast+
  from autosave_disabled_for_session[OF h, of "UserEdit hello_world # replicate 2000 Tick"] a
  have r2: "autosaves (run (UserEdit hello_world # replicate 2000 Tick)
                   (storage_module_load no_store_page)) = []"
    "localStorage (manualSave (run (UserEdit hello_world # replicate 2000 Tick)
                                  (storage_module_load no_store_page)))
       = localStorage (run (UserEdit hello_world # replicate 2000 Tick)
                         (storage_module_load no_store_page))"
    "autoSaveStatus (manualSave (run (UserEdit hello_world # replicate 2000 Tick)
                                    (storage_module_load no_store_page))) = Error"
    by simp_all
  from h q t r1 r2 show ?thesis by blast
qed

end
